theory Spec2Isabelle
  imports Complex_Main "HOL-Library.Sublist"
begin

section \<open>Python values\<close>

text \<open>
  The validators and the metrics helpers of the catalog automation engine are pure
  functions over rows of a data frame and over lists of error dictionaries. They are
  embedded here function by function; every exception the Python can raise is a value
  of \<open>py_exn\<close>, and a function that can raise returns \<open>py_exn + 'a\<close>.

  Numbers. A Python \<open>int\<close> is an \<open>int\<close>. A Python \<open>float\<close> is a \<open>pyfloat\<close>: one of
  the three special values, or a finite value carried as the rational number it stands
  for. Arithmetic on finite values is exact: the rounding of a binary double to 53 bits,
  its finite range and the sign of zero are not part of the model. Comparisons, the
  special values and the conversions to and from integers follow Python.

  Text. A Python \<open>str\<close> is a \<open>string\<close>, one \<open>char\<close> per code point, so the model
  covers the code points below 256.
\<close>

datatype py_exn = ValueError | TypeError | OverflowError | ZeroDivisionError

datatype pyfloat = Finite rat | PosInf | NegInf | NaN

datatype pynum = PInt int | PFloat pyfloat

text \<open>A cell of the data frame.\<close>

datatype pyval = PyNone | PyBool bool | PyInt int | PyFloat pyfloat | PyStr string

subsection \<open>Comparison of floats\<close>

fun float_le :: "pyfloat \<Rightarrow> pyfloat \<Rightarrow> bool" where
  "float_le NaN _ = False"
| "float_le _ NaN = False"
| "float_le NegInf _ = True"
| "float_le _ PosInf = True"
| "float_le (Finite a) (Finite b) = (a \<le> b)"
| "float_le _ _ = False"

fun float_lt :: "pyfloat \<Rightarrow> pyfloat \<Rightarrow> bool" where
  "float_lt NaN _ = False"
| "float_lt _ NaN = False"
| "float_lt PosInf _ = False"
| "float_lt _ NegInf = False"
| "float_lt (Finite a) (Finite b) = (a < b)"
| "float_lt _ _ = True"

definition float_ge :: "pyfloat \<Rightarrow> pyfloat \<Rightarrow> bool" where
  "float_ge a b = float_le b a"

definition to_float :: "pynum \<Rightarrow> pyfloat" where
  "to_float x = (case x of PInt n \<Rightarrow> Finite (of_int n) | PFloat f \<Rightarrow> f)"

definition num_ge :: "pynum \<Rightarrow> int \<Rightarrow> bool" where
  "num_ge x n = float_ge (to_float x) (Finite (of_int n))"

definition num_lt :: "pynum \<Rightarrow> int \<Rightarrow> bool" where
  "num_lt x n = float_lt (to_float x) (Finite (of_int n))"

subsection \<open>Arithmetic\<close>

text \<open>\<open>a / b\<close> on two integers: true division, \<open>ZeroDivisionError\<close> on a zero divisor.\<close>

definition py_truediv :: "int \<Rightarrow> int \<Rightarrow> py_exn + pyfloat" where
  "py_truediv a b = (if b = 0 then Inl ZeroDivisionError else Inr (Finite (of_int a / of_int b)))"

text \<open>\<open>x * n\<close> for a float \<open>x\<close> and an integer \<open>n\<close>.\<close>

definition float_mul_int :: "pyfloat \<Rightarrow> int \<Rightarrow> pyfloat" where
  "float_mul_int x n =
     (case x of
        Finite q \<Rightarrow> Finite (q * of_int n)
      | NaN \<Rightarrow> NaN
      | PosInf \<Rightarrow> (if n = 0 then NaN else if 0 < n then PosInf else NegInf)
      | NegInf \<Rightarrow> (if n = 0 then NaN else if 0 < n then NegInf else PosInf))"

text \<open>Rounding to the nearest integer, a tie going to the even neighbour.\<close>

definition round_half_even :: "rat \<Rightarrow> int" where
  "round_half_even x =
     (let f = \<lfloor>x\<rfloor>; d = x - of_int f
      in if d < 1 / 2 then f
         else if 1 / 2 < d then f + 1
         else if even f then f else f + 1)"

text \<open>\<open>round(x, ndigits)\<close> with \<open>ndigits \<ge> 0\<close>: an integer is returned as it is, a float
  is rounded to \<open>ndigits\<close> decimals and stays a float.\<close>

definition py_round :: "pynum \<Rightarrow> nat \<Rightarrow> pynum" where
  "py_round x ndigits =
     (case x of
        PInt n \<Rightarrow> PInt n
      | PFloat (Finite q) \<Rightarrow> PFloat (Finite (of_int (round_half_even (q * 10 ^ ndigits)) / 10 ^ ndigits))
      | PFloat f \<Rightarrow> PFloat f)"

section \<open>Error records and metrics\<close>

text \<open>The error dictionary every validator emits: keys \<open>sku\<close>, \<open>issue_type\<close>,
  \<open>issue_description\<close>.\<close>

record error_record =
  err_sku :: string
  issue_type :: string
  issue_description :: string

record metrics =
  total_records :: int
  valid_records :: int
  invalid_records :: nat
  data_integrity_score :: pynum
  total_errors :: nat
  top_5_issues :: "(string \<times> nat) list"

subsection \<open>\<open>set\<close> and \<open>collections.Counter\<close>\<close>

text \<open>\<open>len(set(xs))\<close>: the elements are inserted one by one, an element already present
  is not inserted again.\<close>

definition py_set :: "'a list \<Rightarrow> 'a list" where
  "py_set xs = foldl (\<lambda>s x. if x \<in> set s then s else s @ [x]) [] xs"

text \<open>A \<open>Counter\<close> is a dictionary, which keeps its keys in the order of their first
  insertion: an association list. \<open>Counter(xs)\<close> adds one for each element in turn.\<close>

fun counter_add :: "'a \<Rightarrow> ('a \<times> nat) list \<Rightarrow> ('a \<times> nat) list" where
  "counter_add x [] = [(x, 1)]"
| "counter_add x ((k, c) # m) = (if k = x then (k, Suc c) # m else (k, c) # counter_add x m)"

definition Counter :: "'a list \<Rightarrow> ('a \<times> nat) list" where
  "Counter xs = foldl (\<lambda>m x. counter_add x m) [] xs"

text \<open>\<open>counter[k]\<close>: a missing key counts zero.\<close>

definition counter_get :: "('a \<times> nat) list \<Rightarrow> 'a \<Rightarrow> nat" where
  "counter_get m k = (case map_of m k of None \<Rightarrow> 0 | Some c \<Rightarrow> c)"

text \<open>\<open>most_common(n)\<close> is \<open>heapq.nlargest(n, items, key=count)\<close>, which is
  \<open>sorted(items, key=count, reverse=True)[:n]\<close>: a stable sort, so items of equal count
  keep the order they have in the dictionary.\<close>

definition most_common :: "nat \<Rightarrow> ('a \<times> nat) list \<Rightarrow> ('a \<times> nat) list" where
  "most_common n m = take n (sort_key (\<lambda>kc. - int (snd kc)) m)"

subsection \<open>\<open>calculate_metrics\<close>\<close>

definition calculate_metrics :: "error_record list \<Rightarrow> int \<Rightarrow> py_exn + metrics" where
  "calculate_metrics validation_errors total_recs =
     (let invalid = length (py_set (map err_sku validation_errors));
          valid = total_recs - int invalid
      in case (if 0 < total_recs
               then (case py_truediv valid total_recs of
                       Inl e \<Rightarrow> Inl e
                     | Inr q \<Rightarrow> Inr (PFloat (float_mul_int q 100)))
               else Inr (PInt 0)) of
           Inl e \<Rightarrow> Inl e
         | Inr score \<Rightarrow>
             (let issue_counter = Counter (map issue_type validation_errors);
                  top5 = most_common 5 issue_counter
              in Inr \<lparr>total_records = total_recs,
                      valid_records = valid,
                      invalid_records = invalid,
                      data_integrity_score = py_round score 2,
                      total_errors = length validation_errors,
                      top_5_issues = top5\<rparr>))"

section \<open>Conversions of cell values\<close>

subsection \<open>Text of numbers, numbers of text\<close>

definition digit_char :: "nat \<Rightarrow> char" where
  "digit_char d = char_of (48 + d)"

fun str_nat :: "nat \<Rightarrow> string" where
  "str_nat n = (if n < 10 then [digit_char n] else str_nat (n div 10) @ [digit_char (n mod 10)])"

text \<open>\<open>str(n)\<close> of an integer.\<close>

definition str_int :: "int \<Rightarrow> string" where
  "str_int n = (if n < 0 then CHR ''-'' # str_nat (nat (- n)) else str_nat (nat n))"

text \<open>The white space that \<open>int\<close> and \<open>float\<close> strip from both ends of a string:
  the code points below 256 for which \<open>str.isspace\<close> holds.\<close>

definition is_space :: "char \<Rightarrow> bool" where
  "is_space c = (let n = (of_char c :: nat)
                 in (9 \<le> n \<and> n \<le> 13) \<or> (28 \<le> n \<and> n \<le> 32) \<or> n = 133 \<or> n = 160)"

definition py_strip :: "string \<Rightarrow> string" where
  "py_strip s = rev (dropWhile is_space (rev (dropWhile is_space s)))"

definition is_digit :: "char \<Rightarrow> bool" where
  "is_digit c = (let n = (of_char c :: nat) in 48 \<le> n \<and> n \<le> 57)"

definition digit_val :: "char \<Rightarrow> nat" where
  "digit_val c = of_char c - 48"

text \<open>The grammar of a digit part is \<open>digit (["_"] digit)*\<close>. \<open>more_digits\<close> reads what
  follows the first digit and returns the digits read and the text left over.\<close>

fun more_digits :: "string \<Rightarrow> nat list \<times> string" where
  "more_digits [] = ([], [])"
| "more_digits [c] = (if is_digit c then ([digit_val c], []) else ([], [c]))"
| "more_digits (c # d # cs) =
     (if is_digit c then (case more_digits (d # cs) of (ds, r) \<Rightarrow> (digit_val c # ds, r))
      else if c = CHR ''_'' \<and> is_digit d then (case more_digits cs of (ds, r) \<Rightarrow> (digit_val d # ds, r))
      else ([], c # d # cs))"

definition digitpart :: "string \<Rightarrow> (nat list \<times> string) option" where
  "digitpart s =
     (case s of
        [] \<Rightarrow> None
      | c # cs \<Rightarrow> if is_digit c then (case more_digits cs of (ds, r) \<Rightarrow> Some (digit_val c # ds, r))
                 else None)"

definition nat_of_digits :: "nat list \<Rightarrow> nat" where
  "nat_of_digits ds = foldl (\<lambda>a d. 10 * a + d) 0 ds"

text \<open>An optional sign.\<close>

definition split_sign :: "string \<Rightarrow> int \<times> string" where
  "split_sign s =
     (case s of
        [] \<Rightarrow> (1, [])
      | c # cs \<Rightarrow> if c = CHR ''-'' then (- 1, cs) else if c = CHR ''+'' then (1, cs) else (1, c # cs))"

text \<open>\<open>int(s)\<close> for a string, in base ten; \<open>None\<close> is \<open>ValueError\<close>. The interpreter's
  limit on the number of digits of such a string is not part of the model.\<close>

definition int_of_str :: "string \<Rightarrow> int option" where
  "int_of_str s =
     (case split_sign (py_strip s) of
        (sg, u) \<Rightarrow>
          (case digitpart u of
             Some (ds, []) \<Rightarrow> Some (sg * int (nat_of_digits ds))
           | _ \<Rightarrow> None))"

definition to_lower :: "char \<Rightarrow> char" where
  "to_lower c = (let n = (of_char c :: nat) in if 65 \<le> n \<and> n \<le> 90 then char_of (n + 32) else c)"

definition to_upper :: "char \<Rightarrow> char" where
  "to_upper c = (let n = (of_char c :: nat) in if 97 \<le> n \<and> n \<le> 122 then char_of (n - 32) else c)"

text \<open>The exponent of a float literal: \<open>("e" | "E") [sign] digitpart\<close>, or nothing.
  Returns the exponent and the text left over.\<close>

definition exponent_part :: "string \<Rightarrow> (int \<times> string) option" where
  "exponent_part s =
     (case s of
        [] \<Rightarrow> Some (0, [])
      | c # cs \<Rightarrow>
          if c = CHR ''e'' \<or> c = CHR ''E''
          then (case split_sign cs of
                  (sg, u) \<Rightarrow>
                    (case digitpart u of
                       None \<Rightarrow> None
                     | Some (ds, r) \<Rightarrow> Some (sg * int (nat_of_digits ds), r)))
          else Some (0, c # cs))"

text \<open>The mantissa: \<open>[digitpart] "." digitpart | digitpart ["."]\<close>. Returns its value and
  the text left over.\<close>

definition mantissa_part :: "string \<Rightarrow> (rat \<times> string) option" where
  "mantissa_part s =
     (let frac = (\<lambda>ds. of_nat (nat_of_digits ds) / 10 ^ length ds :: rat)
      in case digitpart s of
           Some (ip, r) \<Rightarrow>
             (case r of
                [] \<Rightarrow> Some (of_nat (nat_of_digits ip), [])
              | c # cs \<Rightarrow>
                  if c = CHR ''.''
                  then (case digitpart cs of
                          None \<Rightarrow> Some (of_nat (nat_of_digits ip), cs)
                        | Some (fp, r') \<Rightarrow> Some (of_nat (nat_of_digits ip) + frac fp, r'))
                  else Some (of_nat (nat_of_digits ip), c # cs))
         | None \<Rightarrow>
             (case s of
                [] \<Rightarrow> None
              | c # cs \<Rightarrow>
                  if c = CHR ''.''
                  then (case digitpart cs of
                          None \<Rightarrow> None
                        | Some (fp, r') \<Rightarrow> Some (frac fp, r'))
                  else None))"

text \<open>\<open>float(s)\<close> for a string; \<open>None\<close> is \<open>ValueError\<close>. The value of a decimal
  literal is the rational number it writes.\<close>

definition float_of_str :: "string \<Rightarrow> pyfloat option" where
  "float_of_str s =
     (case split_sign (py_strip s) of
        (sg, u) \<Rightarrow>
          (let l = map to_lower u
           in if l = ''inf'' \<or> l = ''infinity'' then Some (if sg < 0 then NegInf else PosInf)
              else if l = ''nan'' then Some NaN
              else (case mantissa_part u of
                      None \<Rightarrow> None
                    | Some (m, r) \<Rightarrow>
                        (case exponent_part r of
                           Some (e, []) \<Rightarrow> Some (Finite (of_int sg * m * (if 0 \<le> e then 10 ^ nat e else 1 / 10 ^ nat (- e))))
                         | _ \<Rightarrow> None))))"

subsection \<open>\<open>float(x)\<close>, \<open>int(x)\<close> and \<open>str(x)\<close>\<close>

definition py_float :: "pyval \<Rightarrow> py_exn + pyfloat" where
  "py_float x =
     (case x of
        PyNone \<Rightarrow> Inl TypeError
      | PyBool b \<Rightarrow> Inr (Finite (if b then 1 else 0))
      | PyInt n \<Rightarrow> Inr (Finite (of_int n))
      | PyFloat f \<Rightarrow> Inr f
      | PyStr s \<Rightarrow> (case float_of_str s of None \<Rightarrow> Inl ValueError | Some f \<Rightarrow> Inr f))"

text \<open>\<open>int\<close> truncates a finite float towards zero, and raises \<open>ValueError\<close> on NaN and
  \<open>OverflowError\<close> on an infinity.\<close>

definition py_int :: "pyval \<Rightarrow> py_exn + int" where
  "py_int x =
     (case x of
        PyNone \<Rightarrow> Inl TypeError
      | PyBool b \<Rightarrow> Inr (if b then 1 else 0)
      | PyInt n \<Rightarrow> Inr n
      | PyFloat f \<Rightarrow>
          (case f of
             Finite q \<Rightarrow> Inr (if 0 \<le> q then \<lfloor>q\<rfloor> else \<lceil>q\<rceil>)
           | NaN \<Rightarrow> Inl ValueError
           | PosInf \<Rightarrow> Inl OverflowError
           | NegInf \<Rightarrow> Inl OverflowError)
      | PyStr s \<Rightarrow> (case int_of_str s of None \<Rightarrow> Inl ValueError | Some n \<Rightarrow> Inr n))"

text \<open>The text of a float (\<open>repr\<close>) is the shortest decimal that reads back as the same
  double, which a model of exact finite values cannot define: every function that formats
  a float takes it as the parameter \<open>R\<close>.\<close>

definition py_str :: "(pyfloat \<Rightarrow> string) \<Rightarrow> pyval \<Rightarrow> string" where
  "py_str R x =
     (case x of
        PyNone \<Rightarrow> ''None''
      | PyBool b \<Rightarrow> (if b then ''True'' else ''False'')
      | PyInt n \<Rightarrow> str_int n
      | PyFloat f \<Rightarrow> R f
      | PyStr s \<Rightarrow> s)"

definition num_str :: "(pyfloat \<Rightarrow> string) \<Rightarrow> pynum \<Rightarrow> string" where
  "num_str R x = (case x of PInt n \<Rightarrow> str_int n | PFloat f \<Rightarrow> R f)"

section \<open>The validators\<close>

text \<open>A row of the data frame, with the columns the validators read. The \<open>sku\<close> column
  holds text.\<close>

record row =
  sku :: string
  price :: pyval
  inventory_count :: pyval
  category :: pyval

subsection \<open>\<open>PriceValidator\<close>\<close>

definition MIN_PRICE :: pynum where
  "MIN_PRICE = PFloat (Finite (1 / 100))"

definition MAX_PRICE :: pynum where
  "MAX_PRICE = PFloat (Finite (999999 / 100))"

record price_validator =
  min_price :: pynum
  max_price :: pynum

definition PriceValidator :: "pynum option \<Rightarrow> pynum option \<Rightarrow> price_validator" where
  "PriceValidator mn mx =
     \<lparr>min_price = (case mn of Some v \<Rightarrow> v | None \<Rightarrow> MIN_PRICE),
      max_price = (case mx of Some v \<Rightarrow> v | None \<Rightarrow> MAX_PRICE)\<rparr>"

text \<open>The body of the loop of \<open>validate\<close>, and the loop: \<open>errors\<close> is the list built so
  far. An exception other than the two the \<open>except\<close> clause names leaves the loop.\<close>

fun price_loop ::
  "(pyfloat \<Rightarrow> string) \<Rightarrow> price_validator \<Rightarrow> row list \<Rightarrow> error_record list \<Rightarrow> py_exn + error_record list" where
  "price_loop R self [] errors = Inr errors"
| "price_loop R self (r # rows) errors =
     (case py_float (price r) of
        Inl e \<Rightarrow>
          if e = ValueError \<or> e = TypeError
          then price_loop R self rows
                 (errors @ [\<lparr>err_sku = sku r,
                             issue_type = ''invalid_price_format'',
                             issue_description = ''Price '' @ [CHR 0x27] @ py_str R (price r) @ [CHR 0x27] @ '' is not a valid number''\<rparr>])
          else Inl e
      | Inr price_value \<Rightarrow>
          if float_le price_value (to_float (min_price self))
          then price_loop R self rows
                 (errors @ [\<lparr>err_sku = sku r,
                             issue_type = ''price_too_low'',
                             issue_description = ''Price '' @ R price_value @ '' must be > '' @ num_str R (min_price self)\<rparr>])
          else if float_ge price_value (to_float (max_price self))
          then price_loop R self rows
                 (errors @ [\<lparr>err_sku = sku r,
                             issue_type = ''price_too_high'',
                             issue_description = ''Price '' @ R price_value @ '' must be < '' @ num_str R (max_price self)\<rparr>])
          else price_loop R self rows errors)"

definition price_validate ::
  "(pyfloat \<Rightarrow> string) \<Rightarrow> price_validator \<Rightarrow> row list \<Rightarrow> py_exn + error_record list" where
  "price_validate R self dataframe = price_loop R self dataframe []"

subsection \<open>\<open>InventoryValidator\<close>\<close>

definition MIN_INVENTORY :: int where
  "MIN_INVENTORY = 0"

definition LOW_STOCK_THRESHOLD :: int where
  "LOW_STOCK_THRESHOLD = 5"

record inventory_validator =
  min_inventory :: int
  low_stock_threshold :: int

definition InventoryValidator :: "int option \<Rightarrow> int option \<Rightarrow> inventory_validator" where
  "InventoryValidator mn th =
     \<lparr>min_inventory = (case mn of Some v \<Rightarrow> v | None \<Rightarrow> MIN_INVENTORY),
      low_stock_threshold = (case th of Some v \<Rightarrow> v | None \<Rightarrow> LOW_STOCK_THRESHOLD)\<rparr>"

fun inventory_loop ::
  "(pyfloat \<Rightarrow> string) \<Rightarrow> inventory_validator \<Rightarrow> row list \<Rightarrow> error_record list \<Rightarrow> py_exn + error_record list" where
  "inventory_loop R self [] errors = Inr errors"
| "inventory_loop R self (r # rows) errors =
     (case py_int (inventory_count r) of
        Inl e \<Rightarrow>
          if e = ValueError \<or> e = TypeError
          then inventory_loop R self rows
                 (errors @ [\<lparr>err_sku = sku r,
                             issue_type = ''invalid_inventory_format'',
                             issue_description = ''Inventory '' @ [CHR 0x27] @ py_str R (inventory_count r) @ [CHR 0x27] @ '' is not a valid integer''\<rparr>])
          else Inl e
      | Inr inventory_value \<Rightarrow>
          if inventory_value < min_inventory self
          then inventory_loop R self rows
                 (errors @ [\<lparr>err_sku = sku r,
                             issue_type = ''negative_inventory'',
                             issue_description = ''Inventory '' @ str_int inventory_value @ '' cannot be negative''\<rparr>])
          else if inventory_value < low_stock_threshold self
          then inventory_loop R self rows
                 (errors @ [\<lparr>err_sku = sku r,
                             issue_type = ''low_stock_warning'',
                             issue_description = ''Inventory '' @ str_int inventory_value @ '' is below threshold of '' @ str_int (low_stock_threshold self)\<rparr>])
          else inventory_loop R self rows errors)"

definition inventory_validate ::
  "(pyfloat \<Rightarrow> string) \<Rightarrow> inventory_validator \<Rightarrow> row list \<Rightarrow> py_exn + error_record list" where
  "inventory_validate R self dataframe = inventory_loop R self dataframe []"

subsection \<open>Regular expressions\<close>

text \<open>
  The pattern of the SKU validator is a regular expression of Python's \<open>re\<close> module. The
  model covers the patterns that are a sequence of anchors and of single-character atoms,
  each atom with at most one quantifier: a literal character, \<open>\d\<close>, \<open>.\<close>, followed by
  nothing, \<open>{n}\<close>, \<open>*\<close>, \<open>+\<close> or \<open>?\<close>; \<open>^\<close>, \<open>$\<close> and \<open>\Z\<close>. A pattern is kept as the list of its
  items; \<open>regex_src\<close> is the text Python is given.
\<close>

datatype atom = Lit char | Digit | AnyChar

datatype quant = Once | Exactly nat | Star | Plus | Opt

datatype item = Bol | Eol | Eos | Atom atom quant

type_synonym regex = "item list"

definition match_atom :: "atom \<Rightarrow> char \<Rightarrow> bool" where
  "match_atom a c = (case a of Lit l \<Rightarrow> c = l | Digit \<Rightarrow> is_digit c | AnyChar \<Rightarrow> c \<noteq> CHR 0x0A)"

text \<open>\<open>match_here p b s\<close>: some prefix of \<open>s\<close> matches all of \<open>p\<close>; \<open>b\<close> tells that \<open>s\<close>
  is the whole subject, so that \<open>^\<close> matches. \<open>$\<close> matches at the end of the subject and
  before a newline that ends it, \<open>\Z\<close> at the end of the subject only.\<close>

fun match_here :: "regex \<Rightarrow> bool \<Rightarrow> string \<Rightarrow> bool" where
  "match_here [] b s = True"
| "match_here (Bol # p) b s = (b \<and> match_here p b s)"
| "match_here (Eol # p) b s = ((s = [] \<or> s = [CHR 0x0A]) \<and> match_here p b s)"
| "match_here (Eos # p) b s = (s = [] \<and> match_here p b s)"
| "match_here (Atom a Once # p) b [] = False"
| "match_here (Atom a Once # p) b (c # cs) = (match_atom a c \<and> match_here p False cs)"
| "match_here (Atom a (Exactly 0) # p) b s = match_here p b s"
| "match_here (Atom a (Exactly (Suc n)) # p) b [] = False"
| "match_here (Atom a (Exactly (Suc n)) # p) b (c # cs) =
     (match_atom a c \<and> match_here (Atom a (Exactly n) # p) False cs)"
| "match_here (Atom a Star # p) b [] = match_here p b []"
| "match_here (Atom a Star # p) b (c # cs) =
     (match_here p b (c # cs) \<or> (match_atom a c \<and> match_here (Atom a Star # p) False cs))"
| "match_here (Atom a Plus # p) b [] = False"
| "match_here (Atom a Plus # p) b (c # cs) =
     (match_atom a c \<and> match_here (Atom a Star # p) False cs)"
| "match_here (Atom a Opt # p) b [] = match_here p b []"
| "match_here (Atom a Opt # p) b (c # cs) =
     (match_here p b (c # cs) \<or> (match_atom a c \<and> match_here p False cs))"

text \<open>\<open>re.match(pattern, s)\<close>, as a truth value: the pattern matches at the start of
  \<open>s\<close>; the match need not reach the end of \<open>s\<close>.\<close>

definition re_match :: "regex \<Rightarrow> string \<Rightarrow> bool" where
  "re_match p s = match_here p True s"

definition atom_src :: "atom \<Rightarrow> string" where
  "atom_src a =
     (case a of
        Lit c \<Rightarrow> (if c \<in> set ''.^$*+?{}[]|()'' \<or> c = CHR 0x5C then [CHR 0x5C, c] else [c])
      | Digit \<Rightarrow> [CHR 0x5C, CHR ''d'']
      | AnyChar \<Rightarrow> ''.'')"

definition quant_src :: "quant \<Rightarrow> string" where
  "quant_src q =
     (case q of
        Once \<Rightarrow> []
      | Exactly n \<Rightarrow> ''{'' @ str_nat n @ ''}''
      | Star \<Rightarrow> ''*''
      | Plus \<Rightarrow> ''+''
      | Opt \<Rightarrow> ''?'')"

definition item_src :: "item \<Rightarrow> string" where
  "item_src i =
     (case i of
        Bol \<Rightarrow> ''^''
      | Eol \<Rightarrow> ''$''
      | Eos \<Rightarrow> [CHR 0x5C, CHR ''Z'']
      | Atom a q \<Rightarrow> atom_src a @ quant_src q)"

definition regex_src :: "regex \<Rightarrow> string" where
  "regex_src p = concat (map item_src p)"

subsection \<open>\<open>SKUValidator\<close>\<close>

definition SKU_PATTERN :: regex where
  "SKU_PATTERN =
     [Bol, Atom (Lit CHR ''S'') Once, Atom (Lit CHR ''K'') Once, Atom (Lit CHR ''U'') Once,
      Atom (Lit CHR ''-'') Once, Atom Digit (Exactly 5), Eol]"

record sku_validator =
  sku_pattern :: regex

definition SKUValidator :: "regex option \<Rightarrow> sku_validator" where
  "SKUValidator pat = \<lparr>sku_pattern = (case pat of Some p \<Rightarrow> p | None \<Rightarrow> SKU_PATTERN)\<rparr>"

text \<open>The loop of \<open>validate\<close>: \<open>errors\<close> is the list built so far, \<open>reported\<close> the set
  \<open>reported_duplicates\<close>.\<close>

fun sku_loop ::
  "sku_validator \<Rightarrow> (string \<times> nat) list \<Rightarrow> row list \<Rightarrow> error_record list \<Rightarrow> string set \<Rightarrow> error_record list" where
  "sku_loop self sku_counts [] errors reported = errors"
| "sku_loop self sku_counts (r # rows) errors reported =
     (let errors1 =
            (if \<not> re_match (sku_pattern self) (sku r)
             then errors @ [\<lparr>err_sku = sku r,
                              issue_type = ''invalid_sku_format'',
                              issue_description = ''SKU '' @ [CHR 0x27] @ sku r @ [CHR 0x27] @ '' does not match pattern '' @ regex_src (sku_pattern self)\<rparr>]
             else errors)
      in if 1 < counter_get sku_counts (sku r) \<and> sku r \<notin> reported
         then sku_loop self sku_counts rows
                (errors1 @ [\<lparr>err_sku = sku r,
                              issue_type = ''duplicate_sku'',
                              issue_description = ''SKU '' @ [CHR 0x27] @ sku r @ [CHR 0x27] @ '' appears '' @ str_nat (counter_get sku_counts (sku r)) @ '' times in catalog''\<rparr>])
                (insert (sku r) reported)
         else sku_loop self sku_counts rows errors1 reported)"

definition sku_validate :: "sku_validator \<Rightarrow> row list \<Rightarrow> error_record list" where
  "sku_validate self dataframe =
     (let sku_column = map sku dataframe;
          sku_counts = Counter sku_column
      in sku_loop self sku_counts dataframe [] {})"

section \<open>The executive summary\<close>

subsection \<open>Formatting\<close>

text \<open>\<open>f"{n:,}"\<close>: the decimal digits in groups of three.\<close>

fun comma_nat :: "nat \<Rightarrow> string" where
  "comma_nat n =
     (if n < 1000 then str_nat n
      else comma_nat (n div 1000) @ '','' @
           [digit_char (n mod 1000 div 100), digit_char (n mod 100 div 10), digit_char (n mod 10)])"

definition comma_int :: "int \<Rightarrow> string" where
  "comma_int n = (if n < 0 then CHR ''-'' # comma_nat (nat (- n)) else comma_nat (nat n))"

text \<open>\<open>f"{x:.1f}"\<close>: one decimal, the nearest one, a tie going to the even digit.\<close>

definition fmt_1f :: "pynum \<Rightarrow> string" where
  "fmt_1f x =
     (case to_float x of
        NaN \<Rightarrow> ''nan''
      | PosInf \<Rightarrow> ''inf''
      | NegInf \<Rightarrow> ''-inf''
      | Finite q \<Rightarrow>
          (let n = nat (round_half_even (\<bar>q\<bar> * 10))
           in (if q < 0 then ''-'' else []) @ str_nat (n div 10) @ ''.'' @ str_nat (n mod 10)))"

text \<open>\<open>s.replace('_', ' ').title()\<close>. A letter that follows a letter is put in lower
  case, any other letter in upper case. The model knows the letters of ASCII.\<close>

definition is_alpha :: "char \<Rightarrow> bool" where
  "is_alpha c = (let n = (of_char c :: nat) in (65 \<le> n \<and> n \<le> 90) \<or> (97 \<le> n \<and> n \<le> 122))"

fun title_from :: "bool \<Rightarrow> string \<Rightarrow> string" where
  "title_from prev [] = []"
| "title_from prev (c # cs) = (if prev then to_lower c else to_upper c) # title_from (is_alpha c) cs"

definition py_title :: "string \<Rightarrow> string" where
  "py_title s = title_from False s"

definition replace_underscores :: "string \<Rightarrow> string" where
  "replace_underscores s = map (\<lambda>c. if c = CHR ''_'' then CHR '' '' else c) s"

text \<open>\<open>sep.join(xs)\<close>.\<close>

fun py_join :: "string \<Rightarrow> string list \<Rightarrow> string" where
  "py_join sep [] = []"
| "py_join sep [x] = x"
| "py_join sep (x # y # ys) = x @ sep @ py_join sep (y # ys)"

text \<open>\<open>int(x)\<close> of a finite float: towards zero.\<close>

definition py_trunc :: "rat \<Rightarrow> int" where
  "py_trunc q = (if 0 \<le> q then \<lfloor>q\<rfloor> else \<lceil>q\<rceil>)"

subsection \<open>\<open>generate_executive_summary\<close>\<close>

text \<open>\<open>(invalid / total * 100) if total > 0 else 0\<close>: the divisor is positive where the
  division is made, so it does not raise.\<close>

definition invalid_pct :: "metrics \<Rightarrow> pynum" where
  "invalid_pct m =
     (if 0 < total_records m
      then PFloat (Finite (of_nat (invalid_records m) / of_int (total_records m) * 100))
      else PInt 0)"

definition health :: "pynum \<Rightarrow> string \<times> string" where
  "health score =
     (if num_ge score 90 then (''excellent'', ''demonstrates'')
      else if num_ge score 75 then (''good'', ''shows'')
      else if num_ge score 50 then (''fair'', ''indicates'')
      else (''poor'', ''reveals''))"

text \<open>One entry of \<open>issue_names\<close>.\<close>

definition issue_name :: "nat \<Rightarrow> string \<times> nat \<Rightarrow> string" where
  "issue_name errors ic =
     (let pct = (if 0 < errors then of_nat (snd ic) / of_nat errors * 100 else (0 :: rat));
          readable_issue = py_title (replace_underscores (fst ic))
      in readable_issue @ '' ('' @ str_int (py_trunc pct) @ ''%)'')"

definition top_issues_text :: "metrics \<Rightarrow> string" where
  "top_issues_text m =
     (if top_5_issues m = [] then ''no validation errors were identified''
      else (let issue_names = map (issue_name (total_errors m)) (take 3 (top_5_issues m))
            in if length issue_names = 1 then ''driven by '' @ issue_names ! 0
               else if length issue_names = 2
               then ''primarily driven by '' @ issue_names ! 0 @ '' and '' @ issue_names ! 1
               else ''primarily driven by '' @ py_join '', '' (butlast issue_names) @ '', and '' @ last issue_names))"

definition generate_executive_summary :: "metrics \<Rightarrow> string" where
  "generate_executive_summary m =
     (let total = comma_int (total_records m);
          invalid = comma_nat (invalid_records m);
          score = fmt_1f (data_integrity_score m);
          pct = invalid_pct m;
          health_status = fst (health (data_integrity_score m));
          health_verb = snd (health (data_integrity_score m))
      in if invalid_records m = 0
         then ''Analysis of '' @ total @ '' catalog records identified no data integrity issues. '' @
              ''All products passed validation with a perfect '' @ score @ ''% integrity score. '' @
              ''The catalog is production-ready without requiring remediation.''
         else if num_lt pct 5
         then ''Analysis of '' @ total @ '' catalog records identified '' @ fmt_1f pct @ ''% data integrity issues '' @
              ''('' @ invalid @ '' records), '' @ top_issues_text m @ ''. With a '' @ health_status @ '' integrity score '' @
              ''of '' @ score @ ''%, the catalog '' @ health_verb @ '' strong data quality suitable for production use '' @
              ''with minimal remediation required.''
         else if num_lt pct 15
         then ''Analysis of '' @ total @ '' catalog records identified '' @ fmt_1f pct @ ''% data integrity issues '' @
              ''('' @ invalid @ '' records), '' @ top_issues_text m @ ''. The '' @ health_status @ '' integrity score '' @
              ''of '' @ score @ ''% '' @ health_verb @ '' moderate data quality concerns. Recommended immediate action '' @
              ''includes deduplication efforts and category standardization to improve catalog quality.''
         else ''Analysis of '' @ total @ '' catalog records identified significant data integrity issues '' @
              ''affecting '' @ fmt_1f pct @ ''% of records ('' @ invalid @ '' records), '' @ top_issues_text m @ ''. '' @
              ''With a '' @ health_status @ '' integrity score of '' @ score @ ''%, urgent remediation is required. '' @
              ''Priority actions include resolving duplicate SKUs, standardizing missing fields, and '' @
              ''implementing upstream validation to prevent future data quality degradation.'')"

section \<open>What the validators are to emit for one record\<close>

text \<open>The classification of one record by its price, as the specification words it: a
  price that does not convert emits \<open>invalid_price_format\<close> and nothing else; a converted
  price at or below the minimum emits \<open>price_too_low\<close>; otherwise one at or above the
  maximum emits \<open>price_too_high\<close>; otherwise nothing.\<close>

definition price_record_errors ::
  "(pyfloat \<Rightarrow> string) \<Rightarrow> price_validator \<Rightarrow> row \<Rightarrow> error_record list" where
  "price_record_errors R self r =
     (case py_float (price r) of
        Inl e \<Rightarrow>
          [\<lparr>err_sku = sku r,
            issue_type = ''invalid_price_format'',
            issue_description = ''Price '' @ [CHR 0x27] @ py_str R (price r) @ [CHR 0x27] @ '' is not a valid number''\<rparr>]
      | Inr v \<Rightarrow>
          if float_le v (to_float (min_price self))
          then [\<lparr>err_sku = sku r,
                 issue_type = ''price_too_low'',
                 issue_description = ''Price '' @ R v @ '' must be > '' @ num_str R (min_price self)\<rparr>]
          else if float_ge v (to_float (max_price self))
          then [\<lparr>err_sku = sku r,
                 issue_type = ''price_too_high'',
                 issue_description = ''Price '' @ R v @ '' must be < '' @ num_str R (max_price self)\<rparr>]
          else [])"

text \<open>The classification of one record by its inventory count, as the specification
  words it: a count that does not convert emits \<open>invalid_inventory_format\<close> and nothing
  else; a converted count below the minimum emits \<open>negative_inventory\<close>; otherwise one
  below the threshold emits \<open>low_stock_warning\<close>; otherwise nothing.\<close>

definition inventory_record_errors ::
  "(pyfloat \<Rightarrow> string) \<Rightarrow> inventory_validator \<Rightarrow> row \<Rightarrow> error_record list" where
  "inventory_record_errors R self r =
     (case py_int (inventory_count r) of
        Inl e \<Rightarrow>
          [\<lparr>err_sku = sku r,
            issue_type = ''invalid_inventory_format'',
            issue_description = ''Inventory '' @ [CHR 0x27] @ py_str R (inventory_count r) @ [CHR 0x27] @ '' is not a valid integer''\<rparr>]
      | Inr v \<Rightarrow>
          if v < min_inventory self
          then [\<lparr>err_sku = sku r,
                 issue_type = ''negative_inventory'',
                 issue_description = ''Inventory '' @ str_int v @ '' cannot be negative''\<rparr>]
          else if v < low_stock_threshold self
          then [\<lparr>err_sku = sku r,
                 issue_type = ''low_stock_warning'',
                 issue_description = ''Inventory '' @ str_int v @ '' is below threshold of '' @ str_int (low_stock_threshold self)\<rparr>]
          else [])"

text \<open>An inventory count is infinite when it is one of the two infinities of the floats.\<close>

definition infinite_count :: "row \<Rightarrow> bool" where
  "infinite_count r = (inventory_count r = PyFloat PosInf \<or> inventory_count r = PyFloat NegInf)"

section \<open>What the SKU validator is to emit\<close>

text \<open>\<open>re.fullmatch(pattern, s)\<close>, as a truth value: the pattern matches all of \<open>s\<close>,
  which is a match of the pattern followed by \<open>\Z\<close>.\<close>

definition re_fullmatch :: "regex \<Rightarrow> string \<Rightarrow> bool" where
  "re_fullmatch p s = re_match (p @ [Eos]) s"

text \<open>The errors of the record at position \<open>i\<close>, as the specification words them: a
  format error when the SKU does not match the pattern, and a duplicate error when the
  SKU occurs more than once in the record set and not before position \<open>i\<close>.\<close>

definition sku_errors_at :: "sku_validator \<Rightarrow> row list \<Rightarrow> nat \<Rightarrow> error_record list" where
  "sku_errors_at self rows i =
     (let s = sku (rows ! i); n = count_list (map sku rows) s
      in (if \<not> re_match (sku_pattern self) s
          then [\<lparr>err_sku = s,
                 issue_type = ''invalid_sku_format'',
                 issue_description = ''SKU '' @ [CHR 0x27] @ s @ [CHR 0x27] @ '' does not match pattern '' @ regex_src (sku_pattern self)\<rparr>]
          else []) @
         (if 1 < n \<and> s \<notin> set (map sku (take i rows))
          then [\<lparr>err_sku = s,
                 issue_type = ''duplicate_sku'',
                 issue_description = ''SKU '' @ [CHR 0x27] @ s @ [CHR 0x27] @ '' appears '' @ str_nat n @ '' times in catalog''\<rparr>]
          else []))"

section \<open>The ranking of issue types\<close>

text \<open>The position at which a value is first encountered when a list is scanned from
  the front (the length of the list for a value that does not occur).\<close>

definition first_pos :: "'a list \<Rightarrow> 'a \<Rightarrow> nat" where
  "first_pos xs x = length (takeWhile (\<lambda>y. y \<noteq> x) xs)"

text \<open>The order of the ranking, as the specification words it: a pair \<open>(issue_type,
  count)\<close> stands before another when its count is greater, or when the counts are equal
  and its issue type is first encountered earlier in the list \<open>ts\<close> of issue types.\<close>

definition ranks_before :: "'a list \<Rightarrow> 'a \<times> nat \<Rightarrow> 'a \<times> nat \<Rightarrow> bool" where
  "ranks_before ts a b =
     (snd b < snd a \<or> (snd a = snd b \<and> first_pos ts (fst a) < first_pos ts (fst b)))"

section \<open>The choice of the paragraph, as the specification words it\<close>

text \<open>The four paragraphs of the executive summary.\<close>

datatype template = Clean | Minor | Moderate | Severe

text \<open>The share of invalid records in percent, as the specification words it:
  \<open>invalid_records / total_records * 100\<close>, and 0 when \<open>total_records\<close> is 0.\<close>

definition claimed_invalid_pct :: "metrics \<Rightarrow> rat" where
  "claimed_invalid_pct m =
     (if total_records m = 0 then 0
      else of_nat (invalid_records m) / of_int (total_records m) * 100)"

text \<open>The paragraph the specification selects: \<open>invalid_records == 0\<close> is tested first, then
  \<open>invalid_pct < 5\<close>, then \<open>invalid_pct < 15\<close>.\<close>

definition claimed_template :: "metrics \<Rightarrow> template" where
  "claimed_template m =
     (if invalid_records m = 0 then Clean
      else if claimed_invalid_pct m < 5 then Minor
      else if claimed_invalid_pct m < 15 then Moderate
      else Severe)"

section \<open>Properties\<close>

subsection \<open>\<open>set\<close>: the number of distinct elements\<close>

lemma py_set_snoc:
  "py_set (xs @ [x]) = (if x \<in> set (py_set xs) then py_set xs else py_set xs @ [x])"
  by (simp add: py_set_def)

lemma set_py_set: "set (py_set xs) = set xs"
  by (induction xs rule: rev_induct) (auto simp: py_set_snoc py_set_def)

lemma distinct_py_set: "distinct (py_set xs)"
  by (induction xs rule: rev_induct) (auto simp: py_set_snoc py_set_def)

lemma length_py_set: "length (py_set xs) = card (set xs)"
  using distinct_card [OF distinct_py_set, of xs] by (simp add: set_py_set)

subsection \<open>The fields of the metrics\<close>


subsection \<open>The loops of the price and inventory validators\<close>

lemma py_float_exn: "py_float x = Inl e \<Longrightarrow> e = ValueError \<or> e = TypeError"
  by (auto simp: py_float_def split: pyval.splits option.splits)

lemma price_loop_eq:
  "price_loop R self rows errors = Inr (errors @ concat (map (price_record_errors R self) rows))"
proof (induction rows arbitrary: errors)
  case Nil
  then show ?case by simp
next
  case (Cons r rows)
  show ?case
  proof (cases "py_float (price r)")
    case (Inl e)
    then have "e = ValueError \<or> e = TypeError" by (rule py_float_exn)
    with Inl Cons show ?thesis by (auto simp: price_record_errors_def)
  next
    case (Inr v)
    with Cons show ?thesis by (simp add: price_record_errors_def)
  qed
qed

lemma py_int_exn:
  "py_int x = Inl e \<Longrightarrow>
     (e = OverflowError \<and> (x = PyFloat PosInf \<or> x = PyFloat NegInf)) \<or>
     ((e = ValueError \<or> e = TypeError) \<and> x \<noteq> PyFloat PosInf \<and> x \<noteq> PyFloat NegInf)"
  by (auto simp: py_int_def split: pyval.splits option.splits pyfloat.splits)

lemma py_int_infinite: "infinite_count r \<Longrightarrow> py_int (inventory_count r) = Inl OverflowError"
  by (auto simp: infinite_count_def py_int_def)

lemma inventory_loop_eq:
  "inventory_loop R self rows errors =
     (if list_ex infinite_count rows then Inl OverflowError
      else Inr (errors @ concat (map (inventory_record_errors R self) rows)))"
proof (induction rows arbitrary: errors)
  case Nil
  then show ?case by simp
next
  case (Cons r rows)
  show ?case
  proof (cases "py_int (inventory_count r)")
    case (Inl e)
    from py_int_exn [OF Inl] show ?thesis
    proof
      assume "e = OverflowError \<and> (inventory_count r = PyFloat PosInf \<or> inventory_count r = PyFloat NegInf)"
      with Inl show ?thesis by (simp add: infinite_count_def)
    next
      assume a: "(e = ValueError \<or> e = TypeError) \<and> inventory_count r \<noteq> PyFloat PosInf \<and> inventory_count r \<noteq> PyFloat NegInf"
      then have fin: "\<not> infinite_count r" by (simp add: infinite_count_def)
      have step: "inventory_record_errors R self r =
        [\<lparr>err_sku = sku r, issue_type = ''invalid_inventory_format'',
          issue_description = ''Inventory '' @ [CHR 0x27] @ py_str R (inventory_count r) @ [CHR 0x27] @ '' is not a valid integer''\<rparr>]"
        using Inl by (simp add: inventory_record_errors_def)
      from a Inl fin show ?thesis by (simp add: Cons.IH step)
    qed
  next
    case (Inr v)
    then have fin: "\<not> infinite_count r" using py_int_infinite [of r] by auto
    have step: "inventory_record_errors R self r =
       (if v < min_inventory self
          then [\<lparr>err_sku = sku r,
                 issue_type = ''negative_inventory'',
                 issue_description = ''Inventory '' @ str_int v @ '' cannot be negative''\<rparr>]
          else if v < low_stock_threshold self
          then [\<lparr>err_sku = sku r,
                 issue_type = ''low_stock_warning'',
                 issue_description = ''Inventory '' @ str_int v @ '' is below threshold of '' @ str_int (low_stock_threshold self)\<rparr>]
          else [])"
      using Inr by (simp add: inventory_record_errors_def)
    from Inr fin show ?thesis by (simp add: Cons.IH step)
  qed
qed

lemma sublist_mid: "d = a @ x @ b \<Longrightarrow> sublist x d"
  by (simp add: sublist_appendI)

subsection \<open>The price validator\<close>





lemma float_le_NaN [simp]: "float_le x NaN = False"
  by (cases x) simp_all

text \<open>
  Claim C10. A record whose price converts to NaN (the string \<open>nan\<close>, or a cell that
  holds the float NaN) gets no error at all: the conversion succeeds and NaN compares
  false against both bounds. Validation of the record alone returns the empty list, and
  the record can be taken out of any record set without changing the result.
\<close>

theorem nan_price_passes:
  "py_float (price r) = Inr NaN \<Longrightarrow>
     price_validate R self [r] = Inr []
     \<and> price_validate R self (xs @ r # ys) = price_validate R self (xs @ ys)"
proof -
  assume nan: "py_float (price r) = Inr NaN"
  then have "price_record_errors R self r = []"
    by (simp add: price_record_errors_def float_ge_def)
  then show ?thesis
    by (simp add: price_validate_def price_loop_eq)
qed

lemma nan_example_eval:
  "py_float (PyStr ''nan'') = Inr NaN \<and> py_float (PyFloat NaN) = Inr NaN"
  by code_simp

theorem nan_price_passes_witness:
  "py_float (price \<lparr>sku = ''SKU-00001'', price = PyStr ''nan'', inventory_count = PyInt 7, category = PyStr ''Toys''\<rparr>) = Inr NaN
   \<and> py_float (price \<lparr>sku = ''SKU-00002'', price = PyFloat NaN, inventory_count = PyInt 7, category = PyStr ''Toys''\<rparr>) = Inr NaN
   \<and> price_validate (\<lambda>f. ''float'') (PriceValidator None None)
        [\<lparr>sku = ''SKU-00001'', price = PyStr ''nan'', inventory_count = PyInt 7, category = PyStr ''Toys''\<rparr>] = Inr []
   \<and> price_validate (\<lambda>f. ''float'') (PriceValidator None None)
        [\<lparr>sku = ''SKU-00002'', price = PyFloat NaN, inventory_count = PyInt 7, category = PyStr ''Toys''\<rparr>] = Inr []"
  using nan_price_passes [of "\<lparr>sku = ''SKU-00001'', price = PyStr ''nan'', inventory_count = PyInt 7, category = PyStr ''Toys''\<rparr>"
          "\<lambda>f. ''float''" "PriceValidator None None" "[]" "[]"]
        nan_price_passes [of "\<lparr>sku = ''SKU-00002'', price = PyFloat NaN, inventory_count = PyInt 7, category = PyStr ''Toys''\<rparr>"
          "\<lambda>f. ''float''" "PriceValidator None None" "[]" "[]"]
        nan_example_eval
  by simp

subsection \<open>The inventory validator\<close>

text \<open>
  Claim C4. \<open>InventoryValidator.validate\<close> emits for each record exactly one
  \<open>invalid_inventory_format\<close> error when the count does not convert to an integer,
  otherwise one \<open>negative_inventory\<close> error below \<open>min_inventory\<close>, otherwise one
  \<open>low_stock_warning\<close> below \<open>low_stock_threshold\<close>, otherwise nothing. The code does
  so on every record set but those that hold an infinite count: \<open>int\<close> of an infinity
  raises \<open>OverflowError\<close>, which the \<open>except\<close> clause does not name, so \<open>validate\<close>
  raises and returns no error list at all.
\<close>

theorem inventory_validate_outcome:
  "inventory_validate R self rows =
     (if list_ex infinite_count rows then Inl OverflowError
      else Inr (concat (map (inventory_record_errors R self) rows)))
   \<and> (\<forall>r. map issue_type (inventory_record_errors R self r) =
         (case py_int (inventory_count r) of
            Inl e \<Rightarrow> [''invalid_inventory_format'']
          | Inr v \<Rightarrow>
              if v < min_inventory self then [''negative_inventory'']
              else if v < low_stock_threshold self then [''low_stock_warning'']
              else []))"
  by (simp add: inventory_validate_def inventory_loop_eq inventory_record_errors_def split: sum.splits)

lemma inventory_example_raises:
  "list_ex infinite_count
     [\<lparr>sku = ''SKU-00001'', price = PyInt 5, inventory_count = PyStr ''abc'', category = PyStr ''Toys''\<rparr>,
      \<lparr>sku = ''SKU-00002'', price = PyInt 5, inventory_count = PyFloat PosInf, category = PyStr ''Toys''\<rparr>]"
  by code_simp

lemma inventory_example_returns:
  "\<not> list_ex infinite_count
     [\<lparr>sku = ''SKU-00001'', price = PyInt 5, inventory_count = PyStr ''abc'', category = PyStr ''Toys''\<rparr>,
      \<lparr>sku = ''SKU-00003'', price = PyInt 5, inventory_count = PyInt (- 1), category = PyStr ''Toys''\<rparr>,
      \<lparr>sku = ''SKU-00004'', price = PyInt 5, inventory_count = PyStr ''3'', category = PyStr ''Toys''\<rparr>,
      \<lparr>sku = ''SKU-00005'', price = PyInt 5, inventory_count = PyInt 5, category = PyStr ''Toys''\<rparr>]"
  by code_simp

lemma inventory_example_errors:
  "map (\<lambda>e. (err_sku e, issue_type e))
     (concat (map (inventory_record_errors (\<lambda>f. ''float'') (InventoryValidator None None))
     [\<lparr>sku = ''SKU-00001'', price = PyInt 5, inventory_count = PyStr ''abc'', category = PyStr ''Toys''\<rparr>,
      \<lparr>sku = ''SKU-00003'', price = PyInt 5, inventory_count = PyInt (- 1), category = PyStr ''Toys''\<rparr>,
      \<lparr>sku = ''SKU-00004'', price = PyInt 5, inventory_count = PyStr ''3'', category = PyStr ''Toys''\<rparr>,
      \<lparr>sku = ''SKU-00005'', price = PyInt 5, inventory_count = PyInt 5, category = PyStr ''Toys''\<rparr>]))
     = [(''SKU-00001'', ''invalid_inventory_format''), (''SKU-00003'', ''negative_inventory''), (''SKU-00004'', ''low_stock_warning'')]"
  by code_simp

theorem inventory_validate_outcome_witness:
  "inventory_validate (\<lambda>f. ''float'') (InventoryValidator None None)
     [\<lparr>sku = ''SKU-00001'', price = PyInt 5, inventory_count = PyStr ''abc'', category = PyStr ''Toys''\<rparr>,
      \<lparr>sku = ''SKU-00002'', price = PyInt 5, inventory_count = PyFloat PosInf, category = PyStr ''Toys''\<rparr>]
     = Inl OverflowError
   \<and> (\<exists>errs. inventory_validate (\<lambda>f. ''float'') (InventoryValidator None None)
     [\<lparr>sku = ''SKU-00001'', price = PyInt 5, inventory_count = PyStr ''abc'', category = PyStr ''Toys''\<rparr>,
      \<lparr>sku = ''SKU-00003'', price = PyInt 5, inventory_count = PyInt (- 1), category = PyStr ''Toys''\<rparr>,
      \<lparr>sku = ''SKU-00004'', price = PyInt 5, inventory_count = PyStr ''3'', category = PyStr ''Toys''\<rparr>,
      \<lparr>sku = ''SKU-00005'', price = PyInt 5, inventory_count = PyInt 5, category = PyStr ''Toys''\<rparr>] = Inr errs
     \<and> map (\<lambda>e. (err_sku e, issue_type e)) errs
       = [(''SKU-00001'', ''invalid_inventory_format''), (''SKU-00003'', ''negative_inventory''), (''SKU-00004'', ''low_stock_warning'')])"
proof (rule conjI)
  show "inventory_validate (\<lambda>f. ''float'') (InventoryValidator None None)
     [\<lparr>sku = ''SKU-00001'', price = PyInt 5, inventory_count = PyStr ''abc'', category = PyStr ''Toys''\<rparr>,
      \<lparr>sku = ''SKU-00002'', price = PyInt 5, inventory_count = PyFloat PosInf, category = PyStr ''Toys''\<rparr>]
     = Inl OverflowError"
    using inventory_validate_outcome [THEN conjunct1, of "\<lambda>f. ''float''" "InventoryValidator None None"
     "[\<lparr>sku = ''SKU-00001'', price = PyInt 5, inventory_count = PyStr ''abc'', category = PyStr ''Toys''\<rparr>,
      \<lparr>sku = ''SKU-00002'', price = PyInt 5, inventory_count = PyFloat PosInf, category = PyStr ''Toys''\<rparr>]"]
    by (simp only: inventory_example_raises if_True)
next
  have "inventory_validate (\<lambda>f. ''float'') (InventoryValidator None None)
     [\<lparr>sku = ''SKU-00001'', price = PyInt 5, inventory_count = PyStr ''abc'', category = PyStr ''Toys''\<rparr>,
      \<lparr>sku = ''SKU-00003'', price = PyInt 5, inventory_count = PyInt (- 1), category = PyStr ''Toys''\<rparr>,
      \<lparr>sku = ''SKU-00004'', price = PyInt 5, inventory_count = PyStr ''3'', category = PyStr ''Toys''\<rparr>,
      \<lparr>sku = ''SKU-00005'', price = PyInt 5, inventory_count = PyInt 5, category = PyStr ''Toys''\<rparr>]
    = Inr (concat (map (inventory_record_errors (\<lambda>f. ''float'') (InventoryValidator None None))
     [\<lparr>sku = ''SKU-00001'', price = PyInt 5, inventory_count = PyStr ''abc'', category = PyStr ''Toys''\<rparr>,
      \<lparr>sku = ''SKU-00003'', price = PyInt 5, inventory_count = PyInt (- 1), category = PyStr ''Toys''\<rparr>,
      \<lparr>sku = ''SKU-00004'', price = PyInt 5, inventory_count = PyStr ''3'', category = PyStr ''Toys''\<rparr>,
      \<lparr>sku = ''SKU-00005'', price = PyInt 5, inventory_count = PyInt 5, category = PyStr ''Toys''\<rparr>]))"
    using inventory_validate_outcome [THEN conjunct1, of "\<lambda>f. ''float''" "InventoryValidator None None"
     "[\<lparr>sku = ''SKU-00001'', price = PyInt 5, inventory_count = PyStr ''abc'', category = PyStr ''Toys''\<rparr>,
      \<lparr>sku = ''SKU-00003'', price = PyInt 5, inventory_count = PyInt (- 1), category = PyStr ''Toys''\<rparr>,
      \<lparr>sku = ''SKU-00004'', price = PyInt 5, inventory_count = PyStr ''3'', category = PyStr ''Toys''\<rparr>,
      \<lparr>sku = ''SKU-00005'', price = PyInt 5, inventory_count = PyInt 5, category = PyStr ''Toys''\<rparr>]"]
    by (simp only: inventory_example_returns if_False)
  then show "\<exists>errs. inventory_validate (\<lambda>f. ''float'') (InventoryValidator None None)
     [\<lparr>sku = ''SKU-00001'', price = PyInt 5, inventory_count = PyStr ''abc'', category = PyStr ''Toys''\<rparr>,
      \<lparr>sku = ''SKU-00003'', price = PyInt 5, inventory_count = PyInt (- 1), category = PyStr ''Toys''\<rparr>,
      \<lparr>sku = ''SKU-00004'', price = PyInt 5, inventory_count = PyStr ''3'', category = PyStr ''Toys''\<rparr>,
      \<lparr>sku = ''SKU-00005'', price = PyInt 5, inventory_count = PyInt 5, category = PyStr ''Toys''\<rparr>] = Inr errs
     \<and> map (\<lambda>e. (err_sku e, issue_type e)) errs
       = [(''SKU-00001'', ''invalid_inventory_format''), (''SKU-00003'', ''negative_inventory''), (''SKU-00004'', ''low_stock_warning'')]"
    by (intro exI conjI) (assumption, rule inventory_example_errors)
qed

subsection \<open>What the validators raise\<close>




subsection \<open>The loop of the SKU validator\<close>

lemma Counter_snoc: "Counter (xs @ [x]) = counter_add x (Counter xs)"
  by (simp add: Counter_def)

lemma counter_get_add:
  "counter_get (counter_add x m) k = (if k = x then Suc (counter_get m k) else counter_get m k)"
  by (induction m) (auto simp: counter_get_def)

lemma counter_get_Counter: "counter_get (Counter xs) k = count_list xs k"
proof (induction xs rule: rev_induct)
  case Nil
  then show ?case by (simp add: Counter_def counter_get_def)
next
  case (snoc x xs)
  then show ?case by (auto simp: Counter_snoc counter_get_add)
qed

lemma count_list_pos: "0 < count_list xs k \<Longrightarrow> k \<in> set xs"
  by (induction xs) (auto split: if_splits)

lemma sku_loop_Cons:
  "sku_loop self C (r # rows) errors reported =
     sku_loop self C rows
       (errors @
        (if \<not> re_match (sku_pattern self) (sku r)
         then [\<lparr>err_sku = sku r,
                issue_type = ''invalid_sku_format'',
                issue_description = ''SKU '' @ [CHR 0x27] @ sku r @ [CHR 0x27] @ '' does not match pattern '' @ regex_src (sku_pattern self)\<rparr>]
         else []) @
        (if 1 < counter_get C (sku r) \<and> sku r \<notin> reported
         then [\<lparr>err_sku = sku r,
                issue_type = ''duplicate_sku'',
                issue_description = ''SKU '' @ [CHR 0x27] @ sku r @ [CHR 0x27] @ '' appears '' @ str_nat (counter_get C (sku r)) @ '' times in catalog''\<rparr>]
         else []))
       (if 1 < counter_get C (sku r) \<and> sku r \<notin> reported then insert (sku r) reported else reported)"
  by (simp add: Let_def)

lemma sku_errors_at_mid:
  "sku_errors_at self (pre @ r # rest) (length pre) =
     (if \<not> re_match (sku_pattern self) (sku r)
      then [\<lparr>err_sku = sku r,
             issue_type = ''invalid_sku_format'',
             issue_description = ''SKU '' @ [CHR 0x27] @ sku r @ [CHR 0x27] @ '' does not match pattern '' @ regex_src (sku_pattern self)\<rparr>]
      else []) @
     (if 1 < count_list (map sku (pre @ r # rest)) (sku r) \<and> sku r \<notin> set (map sku pre)
      then [\<lparr>err_sku = sku r,
             issue_type = ''duplicate_sku'',
             issue_description = ''SKU '' @ [CHR 0x27] @ sku r @ [CHR 0x27] @ '' appears '' @ str_nat (count_list (map sku (pre @ r # rest)) (sku r)) @ '' times in catalog''\<rparr>]
      else [])"
  by (auto simp: sku_errors_at_def Let_def count_list_0_iff)

lemma sku_loop_eq:
  "sku_loop self (Counter (map sku (pre @ rest))) rest errors
       {s \<in> set (map sku pre). 1 < count_list (map sku (pre @ rest)) s}
   = errors @ concat (map (sku_errors_at self (pre @ rest)) [length pre ..< length pre + length rest])"
proof (induction rest arbitrary: pre errors)
  case Nil
  then show ?case by simp
next
  case (Cons r rest)
  define al where "al = pre @ r # rest"
  define C where "C = Counter (map sku al)"
  define rep where "rep = {s \<in> set (map sku pre). 1 < count_list (map sku al) s}"
  define rep' where "rep' = {s \<in> set (map sku (pre @ [r])). 1 < count_list (map sku al) s}"
  have cg: "counter_get C (sku r) = count_list (map sku al) (sku r)"
    unfolding C_def by (rule counter_get_Counter)
  have cond: "(1 < counter_get C (sku r) \<and> sku r \<notin> rep)
      = (1 < count_list (map sku al) (sku r) \<and> sku r \<notin> set (map sku pre))"
    unfolding cg rep_def by blast
  have rep_next: "(if 1 < counter_get C (sku r) \<and> sku r \<notin> rep then insert (sku r) rep else rep) = rep'"
    unfolding cg rep_def rep'_def al_def by (auto dest: count_list_pos)
  have mid: "sku_errors_at self al (length pre) =
     (if \<not> re_match (sku_pattern self) (sku r)
      then [\<lparr>err_sku = sku r,
             issue_type = ''invalid_sku_format'',
             issue_description = ''SKU '' @ [CHR 0x27] @ sku r @ [CHR 0x27] @ '' does not match pattern '' @ regex_src (sku_pattern self)\<rparr>]
      else []) @
     (if 1 < count_list (map sku al) (sku r) \<and> sku r \<notin> set (map sku pre)
      then [\<lparr>err_sku = sku r,
             issue_type = ''duplicate_sku'',
             issue_description = ''SKU '' @ [CHR 0x27] @ sku r @ [CHR 0x27] @ '' appears '' @ str_nat (count_list (map sku al) (sku r)) @ '' times in catalog''\<rparr>]
      else [])"
    unfolding al_def by (rule sku_errors_at_mid)
  have E: "sku_errors_at self al (length pre) =
     (if \<not> re_match (sku_pattern self) (sku r)
      then [\<lparr>err_sku = sku r,
             issue_type = ''invalid_sku_format'',
             issue_description = ''SKU '' @ [CHR 0x27] @ sku r @ [CHR 0x27] @ '' does not match pattern '' @ regex_src (sku_pattern self)\<rparr>]
      else []) @
     (if 1 < counter_get C (sku r) \<and> sku r \<notin> rep
      then [\<lparr>err_sku = sku r,
             issue_type = ''duplicate_sku'',
             issue_description = ''SKU '' @ [CHR 0x27] @ sku r @ [CHR 0x27] @ '' appears '' @ str_nat (counter_get C (sku r)) @ '' times in catalog''\<rparr>]
      else [])"
    by (simp only: mid cond) (simp only: cg)
  have IH: "sku_loop self C rest (errors @ sku_errors_at self al (length pre)) rep'
      = (errors @ sku_errors_at self al (length pre))
        @ concat (map (sku_errors_at self al) [Suc (length pre) ..< Suc (length pre) + length rest])"
    using Cons.IH [of "pre @ [r]" "errors @ sku_errors_at self al (length pre)"]
    unfolding C_def rep'_def al_def by simp
  have upt: "[length pre ..< length pre + length (r # rest)]
      = length pre # [Suc (length pre) ..< Suc (length pre) + length rest]"
    by (subst upt_rec) simp
  have "sku_loop self C (r # rest) errors rep
      = sku_loop self C rest (errors @ sku_errors_at self al (length pre)) rep'"
    unfolding sku_loop_Cons rep_next E ..
  also note IH
  finally show ?case
    unfolding upt C_def rep_def al_def by simp
qed

lemma sku_validate_eq:
  "sku_validate self rows = concat (map (sku_errors_at self rows) [0 ..< length rows])"
  using sku_loop_eq [of self "[]" rows "[]"] by (simp add: sku_validate_def)

lemma upt_from: "[n ..< n + Suc k] = n # [Suc n ..< Suc n + k]"
  by (subst upt_rec) simp

lemma duplicate_errors_count:
  "length [e \<leftarrow> concat (map (sku_errors_at self (pre @ rest)) [length pre ..< length pre + length rest]).
             issue_type e = ''duplicate_sku'' \<and> err_sku e = s]
   = (if 1 < count_list (map sku (pre @ rest)) s \<and> s \<in> set (map sku rest) \<and> s \<notin> set (map sku pre)
      then 1 else 0)"
proof (induction rest arbitrary: pre)
  case Nil
  then show ?case by simp
next
  case (Cons r rest)
  have IH: "length [e \<leftarrow> concat (map (sku_errors_at self (pre @ r # rest)) [Suc (length pre) ..< Suc (length pre) + length rest]).
             issue_type e = ''duplicate_sku'' \<and> err_sku e = s]
   = (if 1 < count_list (map sku (pre @ r # rest)) s \<and> s \<in> set (map sku rest) \<and> s \<notin> set (map sku (pre @ [r]))
      then 1 else 0)"
    using Cons.IH [of "pre @ [r]"] by simp
  have first: "length [e \<leftarrow> sku_errors_at self (pre @ r # rest) (length pre).
             issue_type e = ''duplicate_sku'' \<and> err_sku e = s]
   = (if 1 < count_list (map sku (pre @ r # rest)) s \<and> s = sku r \<and> s \<notin> set (map sku pre) then 1 else 0)"
    unfolding sku_errors_at_mid by auto
  have "length [e \<leftarrow> concat (map (sku_errors_at self (pre @ r # rest)) [length pre ..< length pre + length (r # rest)]).
             issue_type e = ''duplicate_sku'' \<and> err_sku e = s]
      = (if 1 < count_list (map sku (pre @ r # rest)) s \<and> s = sku r \<and> s \<notin> set (map sku pre) then 1 else 0)
        + (if 1 < count_list (map sku (pre @ r # rest)) s \<and> s \<in> set (map sku rest) \<and> s \<notin> set (map sku (pre @ [r]))
           then 1 else 0)"
    unfolding length_Cons upt_from by (simp only: list.map concat.simps filter_append length_append first IH)
  also have "\<dots> = (if 1 < count_list (map sku (pre @ r # rest)) s \<and> s \<in> set (map sku (r # rest)) \<and> s \<notin> set (map sku pre)
      then 1 else 0)"
    by auto
  finally show ?case .
qed

lemma format_errors_skus:
  "map err_sku [e \<leftarrow> concat (map (sku_errors_at self (pre @ rest)) [length pre ..< length pre + length rest]).
             issue_type e = ''invalid_sku_format'']
   = [s \<leftarrow> map sku rest. \<not> re_match (sku_pattern self) s]"
proof (induction rest arbitrary: pre)
  case Nil
  then show ?case by simp
next
  case (Cons r rest)
  have IH: "map err_sku [e \<leftarrow> concat (map (sku_errors_at self (pre @ r # rest)) [Suc (length pre) ..< Suc (length pre) + length rest]).
             issue_type e = ''invalid_sku_format'']
   = [s \<leftarrow> map sku rest. \<not> re_match (sku_pattern self) s]"
    using Cons.IH [of "pre @ [r]"] by simp
  have first: "map err_sku [e \<leftarrow> sku_errors_at self (pre @ r # rest) (length pre). issue_type e = ''invalid_sku_format'']
   = (if \<not> re_match (sku_pattern self) (sku r) then [sku r] else [])"
    unfolding sku_errors_at_mid by auto
  show ?case
    unfolding length_Cons upt_from
    by (simp only: list.map concat.simps filter_append map_append first IH filter.simps) simp
qed

subsection \<open>Duplicate SKUs\<close>

text \<open>
  Claim C3. For every record set, \<open>SKUValidator.validate\<close> emits exactly one
  \<open>duplicate_sku\<close> error for each SKU value that occurs more than once in the record set
  and none for any other, and it emits that error at the first record that holds the SKU:
  the result is the concatenation, position by position, of the errors of each record,
  where a record gets the duplicate error when its SKU occurs more than once in the whole
  set and at no earlier position.
\<close>

theorem sku_duplicates_once:
  "sku_validate self rows = concat (map (sku_errors_at self rows) [0 ..< length rows])
   \<and> length [e \<leftarrow> sku_validate self rows. issue_type e = ''duplicate_sku'' \<and> err_sku e = s]
       = (if 1 < count_list (map sku rows) s then 1 else 0)"
proof
  show "sku_validate self rows = concat (map (sku_errors_at self rows) [0 ..< length rows])"
    by (rule sku_validate_eq)
next
  have "1 < count_list (map sku rows) s \<Longrightarrow> s \<in> set (map sku rows)"
    by (rule count_list_pos) simp
  then show "length [e \<leftarrow> sku_validate self rows. issue_type e = ''duplicate_sku'' \<and> err_sku e = s]
       = (if 1 < count_list (map sku rows) s then 1 else 0)"
    using duplicate_errors_count [where pre = "[]" and rest = rows and self = self and s = s] by (auto simp: sku_validate_eq)
qed

lemma match_here_Eos:
  "match_here (p @ [Eos]) b s \<Longrightarrow> match_here p b s"
  by (induction p b s rule: match_here.induct) auto

subsection \<open>The format of a SKU\<close>

text \<open>
  Claim C6, as amended. For every record set and every pattern, \<open>SKUValidator.validate\<close>
  emits an \<open>invalid_sku_format\<close> error for a record exactly when \<open>re.match\<close> finds no match
  of the pattern at the start of the SKU: the records with such an error are, in order,
  the records whose SKU has no matching prefix. A SKU that the pattern matches in full
  has a matching prefix, so it never gets the error; the converse fails for a pattern
  that does not anchor its own end.
\<close>

theorem sku_format_errors_prefix_match:
  "map err_sku [e \<leftarrow> sku_validate self rows. issue_type e = ''invalid_sku_format'']
     = [s \<leftarrow> map sku rows. \<not> re_match (sku_pattern self) s]
   \<and> (\<forall>s. re_fullmatch (sku_pattern self) s \<longrightarrow> re_match (sku_pattern self) s)"
  using format_errors_skus [where pre = "[]" and rest = rows and self = self]
  by (auto simp: sku_validate_eq re_fullmatch_def re_match_def dest: match_here_Eos)

lemma sku_format_example_eval:
  "[s \<leftarrow> map sku
       [\<lparr>sku = ''SKU-00001'', price = PyInt 5, inventory_count = PyInt 7, category = PyStr ''Toys''\<rparr>,
        \<lparr>sku = ''ABC-1'', price = PyInt 5, inventory_count = PyInt 7, category = PyStr ''Toys''\<rparr>,
        \<lparr>sku = ''SKU-000012'', price = PyInt 5, inventory_count = PyInt 7, category = PyStr ''Toys''\<rparr>].
     \<not> re_match (sku_pattern (SKUValidator None)) s] = [''ABC-1'', ''SKU-000012'']"
  by code_simp

theorem sku_format_errors_prefix_match_witness:
  "map err_sku [e \<leftarrow> sku_validate (SKUValidator None)
       [\<lparr>sku = ''SKU-00001'', price = PyInt 5, inventory_count = PyInt 7, category = PyStr ''Toys''\<rparr>,
        \<lparr>sku = ''ABC-1'', price = PyInt 5, inventory_count = PyInt 7, category = PyStr ''Toys''\<rparr>,
        \<lparr>sku = ''SKU-000012'', price = PyInt 5, inventory_count = PyInt 7, category = PyStr ''Toys''\<rparr>].
     issue_type e = ''invalid_sku_format''] = [''ABC-1'', ''SKU-000012'']"
  using sku_format_errors_prefix_match [THEN conjunct1, of "SKUValidator None"
       "[\<lparr>sku = ''SKU-00001'', price = PyInt 5, inventory_count = PyInt 7, category = PyStr ''Toys''\<rparr>,
        \<lparr>sku = ''ABC-1'', price = PyInt 5, inventory_count = PyInt 7, category = PyStr ''Toys''\<rparr>,
        \<lparr>sku = ''SKU-000012'', price = PyInt 5, inventory_count = PyInt 7, category = PyStr ''Toys''\<rparr>]"]
  by (simp only: sku_format_example_eval)

text \<open>
  Claim C6, as stated, fails: with the pattern \<open>SKU-\d{5}\<close>, which has no trailing anchor,
  the SKU \<open>SKU-00001-OLD\<close> is not a full match of the pattern, and the validator emits
  no error for it.
\<close>

theorem sku_format_not_fullmatch_counterexample:
  "sku_validate
     \<lparr>sku_pattern = [Atom (Lit CHR ''S'') Once, Atom (Lit CHR ''K'') Once, Atom (Lit CHR ''U'') Once,
                     Atom (Lit CHR ''-'') Once, Atom Digit (Exactly 5)]\<rparr>
     [\<lparr>sku = ''SKU-00001-OLD'', price = PyInt 5, inventory_count = PyInt 7, category = PyStr ''Toys''\<rparr>] = []
   \<and> \<not> re_fullmatch
     [Atom (Lit CHR ''S'') Once, Atom (Lit CHR ''K'') Once, Atom (Lit CHR ''U'') Once,
      Atom (Lit CHR ''-'') Once, Atom Digit (Exactly 5)] ''SKU-00001-OLD''
   \<and> regex_src
     [Atom (Lit CHR ''S'') Once, Atom (Lit CHR ''K'') Once, Atom (Lit CHR ''U'') Once,
      Atom (Lit CHR ''-'') Once, Atom Digit (Exactly 5)] = ''SKU-'' @ [CHR 0x5C] @ ''d{5}''"
  by code_simp

lemma sku_duplicate_example_count:
  "1 < count_list (map sku
       [\<lparr>sku = ''SKU-00001'', price = PyInt 5, inventory_count = PyInt 7, category = PyStr ''Toys''\<rparr>,
        \<lparr>sku = ''SKU-00002'', price = PyInt 5, inventory_count = PyInt 7, category = PyStr ''Toys''\<rparr>,
        \<lparr>sku = ''SKU-00001'', price = PyInt 6, inventory_count = PyInt 8, category = PyStr ''Toys''\<rparr>]) ''SKU-00001''"
  by code_simp

lemma sku_duplicate_example_eval:
  "map (\<lambda>e. (err_sku e, issue_type e)) (sku_validate (SKUValidator None)
       [\<lparr>sku = ''SKU-00001'', price = PyInt 5, inventory_count = PyInt 7, category = PyStr ''Toys''\<rparr>,
        \<lparr>sku = ''SKU-00002'', price = PyInt 5, inventory_count = PyInt 7, category = PyStr ''Toys''\<rparr>,
        \<lparr>sku = ''SKU-00001'', price = PyInt 6, inventory_count = PyInt 8, category = PyStr ''Toys''\<rparr>])
   = [(''SKU-00001'', ''duplicate_sku'')]"
  by code_simp

theorem sku_duplicates_once_witness:
  "length [e \<leftarrow> sku_validate (SKUValidator None)
       [\<lparr>sku = ''SKU-00001'', price = PyInt 5, inventory_count = PyInt 7, category = PyStr ''Toys''\<rparr>,
        \<lparr>sku = ''SKU-00002'', price = PyInt 5, inventory_count = PyInt 7, category = PyStr ''Toys''\<rparr>,
        \<lparr>sku = ''SKU-00001'', price = PyInt 6, inventory_count = PyInt 8, category = PyStr ''Toys''\<rparr>].
      issue_type e = ''duplicate_sku'' \<and> err_sku e = ''SKU-00001''] = 1
   \<and> map (\<lambda>e. (err_sku e, issue_type e)) (sku_validate (SKUValidator None)
       [\<lparr>sku = ''SKU-00001'', price = PyInt 5, inventory_count = PyInt 7, category = PyStr ''Toys''\<rparr>,
        \<lparr>sku = ''SKU-00002'', price = PyInt 5, inventory_count = PyInt 7, category = PyStr ''Toys''\<rparr>,
        \<lparr>sku = ''SKU-00001'', price = PyInt 6, inventory_count = PyInt 8, category = PyStr ''Toys''\<rparr>])
     = [(''SKU-00001'', ''duplicate_sku'')]"
proof
  show "length [e \<leftarrow> sku_validate (SKUValidator None)
       [\<lparr>sku = ''SKU-00001'', price = PyInt 5, inventory_count = PyInt 7, category = PyStr ''Toys''\<rparr>,
        \<lparr>sku = ''SKU-00002'', price = PyInt 5, inventory_count = PyInt 7, category = PyStr ''Toys''\<rparr>,
        \<lparr>sku = ''SKU-00001'', price = PyInt 6, inventory_count = PyInt 8, category = PyStr ''Toys''\<rparr>].
      issue_type e = ''duplicate_sku'' \<and> err_sku e = ''SKU-00001''] = 1"
    using sku_duplicates_once [where self = "SKUValidator None"
       and rows = "[\<lparr>sku = ''SKU-00001'', price = PyInt 5, inventory_count = PyInt 7, category = PyStr ''Toys''\<rparr>,
        \<lparr>sku = ''SKU-00002'', price = PyInt 5, inventory_count = PyInt 7, category = PyStr ''Toys''\<rparr>,
        \<lparr>sku = ''SKU-00001'', price = PyInt 6, inventory_count = PyInt 8, category = PyStr ''Toys''\<rparr>]"
       and s = "''SKU-00001''", THEN conjunct2]
    by (simp only: sku_duplicate_example_count if_True)
next
  show "map (\<lambda>e. (err_sku e, issue_type e)) (sku_validate (SKUValidator None)
       [\<lparr>sku = ''SKU-00001'', price = PyInt 5, inventory_count = PyInt 7, category = PyStr ''Toys''\<rparr>,
        \<lparr>sku = ''SKU-00002'', price = PyInt 5, inventory_count = PyInt 7, category = PyStr ''Toys''\<rparr>,
        \<lparr>sku = ''SKU-00001'', price = PyInt 6, inventory_count = PyInt 8, category = PyStr ''Toys''\<rparr>])
     = [(''SKU-00001'', ''duplicate_sku'')]"
    by (rule sku_duplicate_example_eval)
qed

subsection \<open>Counting and ranking\<close>

lemma map_fst_counter_add:
  "map fst (counter_add x m) = (if x \<in> set (map fst m) then map fst m else map fst m @ [x])"
  by (induction m) force+

lemma map_fst_Counter: "map fst (Counter xs) = py_set xs"
  by (induction xs rule: rev_induct)
     (simp_all add: Counter_snoc map_fst_counter_add py_set_snoc, simp_all add: Counter_def py_set_def)

lemma Counter_counts:
  assumes "kc \<in> set (Counter xs)"
  shows "snd kc = count_list xs (fst kc)"
proof -
  have d: "distinct (map fst (Counter xs))"
    by (simp add: map_fst_Counter distinct_py_set)
  have "(fst kc, snd kc) \<in> set (Counter xs)"
    using assms by simp
  with d have "map_of (Counter xs) (fst kc) = Some (snd kc)"
    by (rule map_of_is_SomeI)
  then have "counter_get (Counter xs) (fst kc) = snd kc"
    by (simp add: counter_get_def)
  then show ?thesis by (simp add: counter_get_Counter)
qed

lemma first_pos_snoc:
  "a \<in> set xs \<Longrightarrow> first_pos (xs @ [x]) a = first_pos xs a"
  by (simp add: first_pos_def takeWhile_append1)

lemma first_pos_less: "a \<in> set xs \<Longrightarrow> first_pos xs a < length xs"
  unfolding first_pos_def by (induction xs) auto

lemma first_pos_new: "x \<notin> set xs \<Longrightarrow> first_pos (xs @ [x]) x = length xs"
  unfolding first_pos_def by (induction xs) auto

lemma py_set_first_pos:
  "sorted_wrt (\<lambda>a b. first_pos xs a < first_pos xs b) (py_set xs)"
proof (induction xs rule: rev_induct)
  case Nil
  then show ?case by (simp add: py_set_def)
next
  case (snoc x xs)
  have keep: "sorted_wrt (\<lambda>a b. first_pos (xs @ [x]) a < first_pos (xs @ [x]) b) (py_set xs)"
    using snoc
    by (rule sorted_wrt_mono_rel [rotated]) (simp add: set_py_set first_pos_snoc)
  show ?case
  proof (cases "x \<in> set xs")
    case True
    with keep show ?thesis by (simp add: py_set_snoc set_py_set)
  next
    case False
    then have "\<forall>a \<in> set (py_set xs). first_pos (xs @ [x]) a < first_pos (xs @ [x]) x"
      by (simp add: set_py_set first_pos_snoc first_pos_new first_pos_less)
    with keep False show ?thesis
      by (simp add: py_set_snoc set_py_set sorted_wrt_append)
  qed
qed

lemma insort_key_stable:
  fixes f :: "'a \<Rightarrow> int"
  assumes "sorted_wrt (\<lambda>a b. f a < f b \<or> (f a = f b \<and> P a b)) ys"
    and "\<forall>y \<in> set ys. P x y"
  shows "sorted_wrt (\<lambda>a b. f a < f b \<or> (f a = f b \<and> P a b)) (insort_key f x ys)"
  using assms
proof (induction ys)
  case Nil
  then show ?case by simp
next
  case (Cons y ys)
  show ?case
  proof (cases "f x \<le> f y")
    case True
    have "\<forall>z \<in> set (y # ys). f y \<le> f z" using Cons.prems(1) by auto
    with True have "\<forall>z \<in> set (y # ys). f x < f z \<or> (f x = f z \<and> P x z)"
      using Cons.prems(2) by fastforce
    with True Cons.prems(1) show ?thesis by simp
  next
    case False
    with Cons show ?thesis by (auto simp: set_insort_key)
  qed
qed

lemma sort_key_stable_wrt:
  fixes f :: "'a \<Rightarrow> int"
  assumes "sorted_wrt P xs"
  shows "sorted_wrt (\<lambda>a b. f a < f b \<or> (f a = f b \<and> P a b)) (sort_key f xs)"
  using assms
proof (induction xs)
  case Nil
  then show ?case by simp
next
  case (Cons x xs)
  then show ?case by (simp add: sort_key_simps insort_key_stable)
qed

text \<open>
  Claim C5. For every list of error records, the \<open>top_5_issues\<close> field of
  \<open>calculate_metrics\<close> is the first five entries (all of them when there are fewer) of a
  list \<open>S\<close> of \<open>(issue_type, count)\<close> pairs that holds each issue type of the error list
  exactly once, with the number of its occurrences, and that is sorted by the ranking:
  greater counts first, and among equal counts the issue type that is first encountered
  earlier when the error list is scanned front to back.
\<close>

theorem top_5_issues_ranked:
  "\<exists>m S. calculate_metrics errs t = Inr m
     \<and> top_5_issues m = take 5 S
     \<and> length (top_5_issues m) \<le> 5
     \<and> distinct (map fst S)
     \<and> set (map fst S) = set (map issue_type errs)
     \<and> list_all (\<lambda>kc. snd kc = count_list (map issue_type errs) (fst kc)) S
     \<and> sorted_wrt (ranks_before (map issue_type errs)) S"
proof -
  define ts where "ts = map issue_type errs"
  define S where "S = sort_key (\<lambda>kc. - int (snd kc)) (Counter ts)"
  obtain m where m: "calculate_metrics errs t = Inr m" and top: "top_5_issues m = take 5 S"
    by (cases "0 < t")
       (simp_all add: calculate_metrics_def Let_def py_truediv_def most_common_def S_def ts_def)
  have dk: "distinct (map fst (Counter ts))"
    by (simp add: map_fst_Counter distinct_py_set)
  then have "distinct (map fst S)"
    by (simp add: S_def distinct_map)
  moreover have "set (map fst S) = set ts"
    using set_py_set [of ts] by (simp add: S_def map_fst_Counter [symmetric])
  moreover have "list_all (\<lambda>kc. snd kc = count_list ts (fst kc)) S"
    by (simp add: S_def list_all_iff Counter_counts)
  moreover have "sorted_wrt (ranks_before ts) S"
  proof -
    have "sorted_wrt (\<lambda>a b. first_pos ts (fst a) < first_pos ts (fst b)) (Counter ts)"
      using py_set_first_pos [of ts] by (simp add: map_fst_Counter [symmetric] sorted_wrt_map)
    then have "sorted_wrt (\<lambda>a b. - int (snd a) < - int (snd b)
          \<or> (- int (snd a) = - int (snd b) \<and> first_pos ts (fst a) < first_pos ts (fst b))) S"
      unfolding S_def by (rule sort_key_stable_wrt)
    then show ?thesis
      by (rule sorted_wrt_mono_rel [rotated]) (auto simp: ranks_before_def)
  qed
  ultimately show ?thesis
    using m top unfolding ts_def by auto
qed

lemma top_5_issues_example:
  "(case calculate_metrics
      [\<lparr>err_sku = ''SKU-00001'', issue_type = ''price_too_low'', issue_description = []\<rparr>,
       \<lparr>err_sku = ''SKU-00002'', issue_type = ''duplicate_sku'', issue_description = []\<rparr>,
       \<lparr>err_sku = ''SKU-00003'', issue_type = ''low_stock_warning'', issue_description = []\<rparr>,
       \<lparr>err_sku = ''SKU-00004'', issue_type = ''duplicate_sku'', issue_description = []\<rparr>,
       \<lparr>err_sku = ''SKU-00005'', issue_type = ''price_too_low'', issue_description = []\<rparr>] 5
     of Inl e \<Rightarrow> [] | Inr m \<Rightarrow> top_5_issues m)
   = [(''price_too_low'', 2), (''duplicate_sku'', 2), (''low_stock_warning'', 1)]"
  by code_simp

theorem top_5_issues_ranked_witness:
  "\<exists>m. calculate_metrics
      [\<lparr>err_sku = ''SKU-00001'', issue_type = ''price_too_low'', issue_description = []\<rparr>,
       \<lparr>err_sku = ''SKU-00002'', issue_type = ''duplicate_sku'', issue_description = []\<rparr>,
       \<lparr>err_sku = ''SKU-00003'', issue_type = ''low_stock_warning'', issue_description = []\<rparr>,
       \<lparr>err_sku = ''SKU-00004'', issue_type = ''duplicate_sku'', issue_description = []\<rparr>,
       \<lparr>err_sku = ''SKU-00005'', issue_type = ''price_too_low'', issue_description = []\<rparr>] 5 = Inr m
     \<and> top_5_issues m = [(''price_too_low'', 2), (''duplicate_sku'', 2), (''low_stock_warning'', 1)]"
proof -
  from top_5_issues_ranked [of
      "[\<lparr>err_sku = ''SKU-00001'', issue_type = ''price_too_low'', issue_description = []\<rparr>,
       \<lparr>err_sku = ''SKU-00002'', issue_type = ''duplicate_sku'', issue_description = []\<rparr>,
       \<lparr>err_sku = ''SKU-00003'', issue_type = ''low_stock_warning'', issue_description = []\<rparr>,
       \<lparr>err_sku = ''SKU-00004'', issue_type = ''duplicate_sku'', issue_description = []\<rparr>,
       \<lparr>err_sku = ''SKU-00005'', issue_type = ''price_too_low'', issue_description = []\<rparr>]" 5]
  obtain m where m: "calculate_metrics
      [\<lparr>err_sku = ''SKU-00001'', issue_type = ''price_too_low'', issue_description = []\<rparr>,
       \<lparr>err_sku = ''SKU-00002'', issue_type = ''duplicate_sku'', issue_description = []\<rparr>,
       \<lparr>err_sku = ''SKU-00003'', issue_type = ''low_stock_warning'', issue_description = []\<rparr>,
       \<lparr>err_sku = ''SKU-00004'', issue_type = ''duplicate_sku'', issue_description = []\<rparr>,
       \<lparr>err_sku = ''SKU-00005'', issue_type = ''price_too_low'', issue_description = []\<rparr>] 5 = Inr m"
    by blast
  with top_5_issues_example
  have "top_5_issues m = [(''price_too_low'', 2), (''duplicate_sku'', 2), (''low_stock_warning'', 1)]"
    by simp
  with m show ?thesis by blast
qed

subsection \<open>Bounds of the metrics\<close>

lemma round_half_even_bounds:
  assumes "of_int a \<le> x" and "x \<le> of_int b"
  shows "a \<le> round_half_even x \<and> round_half_even x \<le> b"
proof -
  have lo: "a \<le> \<lfloor>x\<rfloor>" using assms(1) by (simp add: le_floor_iff)
  have hi: "\<lfloor>x\<rfloor> \<le> b" using assms(2) by (simp add: floor_le_iff)
  have up: "\<lfloor>x\<rfloor> + 1 \<le> b" if "of_int \<lfloor>x\<rfloor> < x"
  proof -
    from that assms(2) have "of_int \<lfloor>x\<rfloor> < (of_int b :: rat)" by linarith
    then show ?thesis by simp
  qed
  show ?thesis
    using lo hi up by (auto simp: round_half_even_def Let_def)
qed

text \<open>Every validator names in its errors only \<open>sku\<close> values of the record set, so the merged
  error list that \<open>main\<close> hands to \<open>calculate_metrics\<close> is well-formed.\<close>

lemma price_errors_skus:
  "err_sku ` set (concat (map (price_record_errors R self) rows)) \<subseteq> sku ` set rows"
  by (auto simp: price_record_errors_def split: sum.splits if_splits)

lemma inventory_errors_skus:
  "err_sku ` set (concat (map (inventory_record_errors R self) rows)) \<subseteq> sku ` set rows"
  by (auto simp: inventory_record_errors_def split: sum.splits if_splits)

lemma sku_errors_mid_skus:
  "set (map err_sku (sku_errors_at self (pre @ r # rest) (length pre))) \<subseteq> {sku r}"
  unfolding sku_errors_at_mid by (simp only: map_append list.map if_distrib [of "map err_sku"] if_distrib [of set] set_append list.set error_record.simps split: if_split) simp

lemma sku_errors_skus:
  "err_sku ` set (sku_validate self rows) \<subseteq> sku ` set rows"
proof
  fix s assume "s \<in> err_sku ` set (sku_validate self rows)"
  then obtain e i where i: "i < length rows" and e: "e \<in> set (sku_errors_at self rows i)"
    and s: "s = err_sku e"
    by (auto simp: sku_validate_eq)
  from i have rows: "rows = take i rows @ rows ! i # drop (Suc i) rows"
    by (rule id_take_nth_drop)
  from i have len: "length (take i rows) = i" by simp
  have "set (map err_sku (sku_errors_at self (take i rows @ rows ! i # drop (Suc i) rows) (length (take i rows))))
      \<subseteq> {sku (rows ! i)}"
    by (rule sku_errors_mid_skus)
  then have "set (map err_sku (sku_errors_at self rows i)) \<subseteq> {sku (rows ! i)}"
    unfolding len rows [symmetric] .
  with e have "err_sku e = sku (rows ! i)" by auto
  with i s show "s \<in> sku ` set rows" by simp
qed

lemma pipeline_errors_skus:
  assumes "price_validate R pv rows = Inr pe" and "inventory_validate R iv rows = Inr ie"
  shows "err_sku ` set (pe @ sku_validate sv rows @ ie) \<subseteq> sku ` set rows"
proof -
  have "pe = concat (map (price_record_errors R pv) rows)"
    using assms(1) by (simp add: price_validate_def price_loop_eq)
  moreover have "ie = concat (map (inventory_record_errors R iv) rows)"
    using assms(2) by (simp add: inventory_validate_def inventory_loop_eq split: if_splits)
  ultimately show ?thesis
    using price_errors_skus [of R pv rows] inventory_errors_skus [of R iv rows] sku_errors_skus [of sv rows]
    by (simp add: image_Un)
qed

lemma calculate_metrics_eval:
  "calculate_metrics errs t =
     Inr \<lparr>total_records = t,
          valid_records = t - int (card (err_sku ` set errs)),
          invalid_records = card (err_sku ` set errs),
          data_integrity_score =
            (if 0 < t
             then PFloat (Finite (of_int (round_half_even
                    (of_int (t - int (card (err_sku ` set errs))) / of_int t * 100 * 10\<^sup>2)) / 10\<^sup>2))
             else PInt 0),
          total_errors = length errs,
          top_5_issues = most_common 5 (Counter (map issue_type errs))\<rparr>"
  by (simp add: calculate_metrics_def Let_def py_truediv_def float_mul_int_def py_round_def
      length_py_set)

text \<open>
  Claim C7. When every \<open>sku\<close> that the error list refers to belongs to the record set,
  and the record set is not empty, \<open>calculate_metrics\<close>, called as \<open>main\<close> calls it with
  the number of records as \<open>total_records\<close>, returns metrics in which
  \<open>invalid_records \<le> total_records\<close> and the \<open>data_integrity_score\<close> is a float between
  0 and 100.
\<close>

theorem metrics_bounds:
  assumes "err_sku ` set errs \<subseteq> sku ` set rows" and "0 < length rows"
  shows "\<exists>m q. calculate_metrics errs (int (length rows)) = Inr m
     \<and> int (invalid_records m) \<le> total_records m
     \<and> data_integrity_score m = PFloat (Finite q) \<and> 0 \<le> q \<and> q \<le> 100"
proof -
  define n where "n = card (err_sku ` set errs)"
  define t where "t = int (length rows)"
  have "n \<le> card (sku ` set rows)"
    unfolding n_def using assms(1) by (simp add: card_mono)
  also have "\<dots> \<le> card (set rows)" by (simp add: card_image_le)
  also have "\<dots> \<le> length rows" by (rule card_length)
  finally have nt: "int n \<le> t" by (simp add: t_def)
  have tpos: "0 < t" using assms(2) by (simp add: t_def)
  define x :: rat where "x = of_int (t - int n) / of_int t * 100 * 10\<^sup>2"
  have x0: "0 \<le> x" using nt tpos by (simp add: x_def)
  have "of_int (t - int n) / (of_int t :: rat) \<le> 1" using nt tpos by simp
  then have "of_int (t - int n) / (of_int t :: rat) * 10000 \<le> 1 * 10000"
    by (rule mult_right_mono) simp
  then have x1: "x \<le> 10000" unfolding x_def by (simp add: mult.assoc)
  have rb: "0 \<le> round_half_even x \<and> round_half_even x \<le> 10000"
    using round_half_even_bounds [of 0 x 10000] x0 x1 by simp
  define m where "m = \<lparr>total_records = t,
          valid_records = t - int n,
          invalid_records = n,
          data_integrity_score = PFloat (Finite (of_int (round_half_even x) / 10\<^sup>2)),
          total_errors = length errs,
          top_5_issues = most_common 5 (Counter (map issue_type errs))\<rparr>"
  have m: "calculate_metrics errs t = Inr m"
    using tpos unfolding m_def n_def x_def by (simp add: calculate_metrics_eval)
  define q :: rat where "q = of_int (round_half_even x) / 10\<^sup>2"
  have q0: "0 \<le> q" using rb by (simp add: q_def)
  have "(of_int (round_half_even x) :: rat) \<le> 10000" using rb by linarith
  then have q1: "q \<le> 100" by (simp add: q_def)
  have c1: "calculate_metrics errs (int (length rows)) = Inr m"
    using m unfolding t_def .
  have c2: "int (invalid_records m) \<le> total_records m"
    using nt by (simp add: m_def)
  have c3: "data_integrity_score m = PFloat (Finite q)"
    by (simp add: m_def q_def)
  show ?thesis
    using c1 c2 c3 q0 q1 by (intro exI [of _ m] exI [of _ q] conjI)
qed

theorem metrics_bounds_witness:
  "\<exists>m q. calculate_metrics
        [\<lparr>err_sku = ''SKU-00002'', issue_type = ''price_too_low'', issue_description = []\<rparr>,
         \<lparr>err_sku = ''SKU-00002'', issue_type = ''low_stock_warning'', issue_description = []\<rparr>]
        (int (length
          [\<lparr>sku = ''SKU-00001'', price = PyFloat (Finite 5), inventory_count = PyInt 7, category = PyStr ''Toys''\<rparr>,
           \<lparr>sku = ''SKU-00002'', price = PyFloat (Finite 0), inventory_count = PyInt 2, category = PyStr ''Toys''\<rparr>,
           \<lparr>sku = ''SKU-00003'', price = PyFloat (Finite 6), inventory_count = PyInt 9, category = PyStr ''Toys''\<rparr>])) = Inr m
     \<and> int (invalid_records m) \<le> total_records m
     \<and> data_integrity_score m = PFloat (Finite q) \<and> 0 \<le> q \<and> q \<le> 100"
proof -
  have a: "err_sku ` set
        [\<lparr>err_sku = ''SKU-00002'', issue_type = ''price_too_low'', issue_description = []\<rparr>,
         \<lparr>err_sku = ''SKU-00002'', issue_type = ''low_stock_warning'', issue_description = []\<rparr>]
      \<subseteq> sku ` set
          [\<lparr>sku = ''SKU-00001'', price = PyFloat (Finite 5), inventory_count = PyInt 7, category = PyStr ''Toys''\<rparr>,
           \<lparr>sku = ''SKU-00002'', price = PyFloat (Finite 0), inventory_count = PyInt 2, category = PyStr ''Toys''\<rparr>,
           \<lparr>sku = ''SKU-00003'', price = PyFloat (Finite 6), inventory_count = PyInt 9, category = PyStr ''Toys''\<rparr>]"
    by simp
  have b: "0 < length
          [\<lparr>sku = ''SKU-00001'', price = PyFloat (Finite 5), inventory_count = PyInt 7, category = PyStr ''Toys''\<rparr>,
           \<lparr>sku = ''SKU-00002'', price = PyFloat (Finite 0), inventory_count = PyInt 2, category = PyStr ''Toys''\<rparr>,
           \<lparr>sku = ''SKU-00003'', price = PyFloat (Finite 6), inventory_count = PyInt 9, category = PyStr ''Toys''\<rparr>]"
    by simp
  show ?thesis by (rule metrics_bounds [OF a b])
qed

subsection \<open>The executive summary\<close>

text \<open>The test of \<open>invalid_pct\<close> in the code and in the specification. The code takes 0 for
  every \<open>total_records\<close> that is not positive, the specification for 0 only; a negative
  \<open>total_records\<close> gives a share that is not positive, so the tests agree.\<close>

lemma invalid_pct_lt:
  assumes "0 < k"
  shows "num_lt (invalid_pct m) k = (claimed_invalid_pct m < of_int k)"
proof (cases "0 < total_records m")
  case True
  then show ?thesis
    by (simp add: invalid_pct_def claimed_invalid_pct_def num_lt_def to_float_def)
next
  case False
  show ?thesis
  proof (cases "total_records m = 0")
    case True
    with assms show ?thesis
      by (simp add: invalid_pct_def claimed_invalid_pct_def num_lt_def to_float_def)
  next
    case nz: False
    with False have neg: "total_records m < 0" by simp
    then have "(of_nat (invalid_records m) :: rat) / of_int (total_records m) \<le> 0"
      by (simp add: divide_nonneg_neg)
    then have "(of_nat (invalid_records m) :: rat) / of_int (total_records m) * 100 \<le> 0"
      by (rule mult_nonpos_nonneg) simp
    moreover have "(0 :: rat) < of_int k" using assms by simp
    ultimately have "claimed_invalid_pct m < of_int k"
      using nz by (simp add: claimed_invalid_pct_def)
    with False assms show ?thesis
      by (simp add: invalid_pct_def num_lt_def to_float_def)
  qed
qed

lemma suffix_append_long:
  assumes "length s \<le> length l"
  shows "suffix s (a @ l) = suffix s l"
proof
  assume "suffix s (a @ l)"
  then consider "suffix s l" | s' where "s = s' @ l" "suffix s' a"
    by (auto simp: suffix_append)
  then show "suffix s l"
  proof cases
    case 1
    then show ?thesis .
  next
    case 2
    with assms have "s' = []" by simp
    with 2 show ?thesis by simp
  qed
next
  assume "suffix s l"
  then show "suffix s (a @ l)" by (simp add: suffix_appendI)
qed

lemma suffix_closing:
  assumes "d = a @ b @ c @ l" and "length s \<le> length l"
  shows "suffix s d = suffix s l"
proof -
  have "d = (a @ b @ c) @ l" using assms(1) by simp
  then show ?thesis using assms(2) by (simp only: suffix_append_long)
qed

lemma closing_Clean:
  "suffix ''without requiring remediation.'' ''The catalog is production-ready without requiring remediation.''"
  "\<not> suffix ''remediation required.'' ''The catalog is production-ready without requiring remediation.''"
  "\<not> suffix ''to improve catalog quality.'' ''The catalog is production-ready without requiring remediation.''"
  "\<not> suffix ''quality degradation.'' ''The catalog is production-ready without requiring remediation.''"
  by code_simp+

lemma closing_Minor:
  "\<not> suffix ''without requiring remediation.'' ''with minimal remediation required.''"
  "suffix ''remediation required.'' ''with minimal remediation required.''"
  "\<not> suffix ''to improve catalog quality.'' ''with minimal remediation required.''"
  "\<not> suffix ''quality degradation.'' ''with minimal remediation required.''"
  by code_simp+

lemma closing_Moderate:
  "\<not> suffix ''without requiring remediation.'' ''includes deduplication efforts and category standardization to improve catalog quality.''"
  "\<not> suffix ''remediation required.'' ''includes deduplication efforts and category standardization to improve catalog quality.''"
  "suffix ''to improve catalog quality.'' ''includes deduplication efforts and category standardization to improve catalog quality.''"
  "\<not> suffix ''quality degradation.'' ''includes deduplication efforts and category standardization to improve catalog quality.''"
  by code_simp+

lemma closing_Severe:
  "\<not> suffix ''without requiring remediation.'' ''implementing upstream validation to prevent future data quality degradation.''"
  "\<not> suffix ''remediation required.'' ''implementing upstream validation to prevent future data quality degradation.''"
  "\<not> suffix ''to improve catalog quality.'' ''implementing upstream validation to prevent future data quality degradation.''"
  "suffix ''quality degradation.'' ''implementing upstream validation to prevent future data quality degradation.''"
  by code_simp+

lemma health_Finite:
  "health (PFloat (Finite q)) =
     (if 90 \<le> q then (''excellent'', ''demonstrates'')
      else if 75 \<le> q then (''good'', ''shows'')
      else if 50 \<le> q then (''fair'', ''indicates'')
      else (''poor'', ''reveals''))"
  by (simp add: health_def num_ge_def float_ge_def to_float_def)

lemma health_PInt:
  "health (PInt i) =
     (if 90 \<le> i then (''excellent'', ''demonstrates'')
      else if 75 \<le> i then (''good'', ''shows'')
      else if 50 \<le> i then (''fair'', ''indicates'')
      else (''poor'', ''reveals''))"
  by (simp add: health_def num_ge_def float_ge_def to_float_def)

lemma health_NaN: "health (PFloat NaN) = (''poor'', ''reveals'')"
  by (simp add: health_def num_ge_def float_ge_def to_float_def)

text \<open>The four paragraphs.\<close>

lemma summary_Clean:
  assumes "claimed_template m = Clean"
  shows "generate_executive_summary m =
     (''Analysis of '' @ comma_int (total_records m) @ '' catalog records '') @
     ''identified no data integrity issues. '' @
     (''All products passed validation with a perfect '' @ fmt_1f (data_integrity_score m) @
      ''% integrity score. '') @
     ''The catalog is production-ready without requiring remediation.''"
proof -
  from assms have "invalid_records m = 0"
    by (simp add: claimed_template_def split: if_splits)
  then show ?thesis
    by (simp add: generate_executive_summary_def Let_def)
qed

lemma summary_Minor:
  assumes "claimed_template m = Minor"
  shows "generate_executive_summary m =
     (''Analysis of '' @ comma_int (total_records m) @ '' catalog records identified '' @
      fmt_1f (invalid_pct m) @ ''% data integrity issues ('' @ comma_nat (invalid_records m) @
      '' records), '' @ top_issues_text m) @
     (''. With a '' @ fst (health (data_integrity_score m)) @ '' integrity score of '' @
      fmt_1f (data_integrity_score m) @ ''%, the catalog '' @ snd (health (data_integrity_score m)) @
      '' strong data quality '') @
     ''suitable for production use '' @ ''with minimal remediation required.''"
proof -
  from assms have "invalid_records m \<noteq> 0" and "claimed_invalid_pct m < 5"
    by (simp_all add: claimed_template_def split: if_splits)
  then have "invalid_records m \<noteq> 0" and "num_lt (invalid_pct m) 5"
    using invalid_pct_lt [of 5 m] by simp_all
  then show ?thesis
    by (simp add: generate_executive_summary_def Let_def)
qed

lemma summary_Moderate:
  assumes "claimed_template m = Moderate"
  shows "generate_executive_summary m =
     (''Analysis of '' @ comma_int (total_records m) @ '' catalog records identified '' @
      fmt_1f (invalid_pct m) @ ''% data integrity issues ('' @ comma_nat (invalid_records m) @
      '' records), '' @ top_issues_text m) @
     (''. The '' @ fst (health (data_integrity_score m)) @ '' integrity score of '' @
      fmt_1f (data_integrity_score m) @ ''% '' @ snd (health (data_integrity_score m)) @
      '' moderate data quality concerns. '') @
     ''Recommended immediate action '' @
     ''includes deduplication efforts and category standardization to improve catalog quality.''"
proof -
  from assms have "invalid_records m \<noteq> 0" and "\<not> claimed_invalid_pct m < 5"
    and "claimed_invalid_pct m < 15"
    by (simp_all add: claimed_template_def split: if_splits)
  then have "invalid_records m \<noteq> 0" and "\<not> num_lt (invalid_pct m) 5" and "num_lt (invalid_pct m) 15"
    using invalid_pct_lt [of 5 m] invalid_pct_lt [of 15 m] by simp_all
  then show ?thesis
    by (simp add: generate_executive_summary_def Let_def)
qed

lemma summary_Severe:
  assumes "claimed_template m = Severe"
  shows "generate_executive_summary m =
     (''Analysis of '' @ comma_int (total_records m) @
      '' catalog records identified significant data integrity issues '' @
      ''affecting '' @ fmt_1f (invalid_pct m) @ ''% of records ('' @ comma_nat (invalid_records m) @
      '' records), '' @ top_issues_text m) @
     (''. With a '' @ fst (health (data_integrity_score m)) @ '' integrity score of '' @
      fmt_1f (data_integrity_score m) @ ''%, urgent remediation is required. '') @
     ''Priority actions include resolving duplicate SKUs, standardizing missing fields, and '' @
     ''implementing upstream validation to prevent future data quality degradation.''"
proof -
  from assms have "invalid_records m \<noteq> 0" and "\<not> claimed_invalid_pct m < 5"
    and "\<not> claimed_invalid_pct m < 15"
    by (simp_all add: claimed_template_def split: if_splits)
  then have "invalid_records m \<noteq> 0" and "\<not> num_lt (invalid_pct m) 5" and "\<not> num_lt (invalid_pct m) 15"
    using invalid_pct_lt [of 5 m] invalid_pct_lt [of 15 m] by simp_all
  then show ?thesis
    by (simp add: generate_executive_summary_def Let_def)
qed

text \<open>
  Claim C8. \<open>generate_executive_summary\<close> is a function of the metrics alone. It writes
  exactly one of four paragraphs, the one the specification selects: \<open>invalid_records == 0\<close>
  is tested first, then \<open>invalid_pct < 5\<close>, then \<open>invalid_pct < 15\<close>, where \<open>invalid_pct\<close> is
  \<open>invalid_records / total_records * 100\<close>, and 0 when \<open>total_records\<close> is 0. Each
  paragraph is recognised by its closing words, which no other paragraph ends with. The
  first paragraph contains \<open>no data integrity issues\<close>; the other three contain the health
  wording with the score, the third one in the sentence of the
  \<open>moderate data quality concerns\<close>. The health wording is excellent/demonstrates for a
  score of at least 90, good/shows for at least 75, fair/indicates for at least 50, and
  poor/reveals otherwise, also for a score that is NaN.
\<close>

theorem executive_summary_template:
  "(let S = generate_executive_summary m;
        T = claimed_template m;
        score = data_integrity_score m;
        status = fst (health score);
        verb = snd (health score)
    in suffix ''without requiring remediation.'' S = (T = Clean)
     \<and> suffix ''remediation required.'' S = (T = Minor)
     \<and> suffix ''to improve catalog quality.'' S = (T = Moderate)
     \<and> suffix ''quality degradation.'' S = (T = Severe)
     \<and> (case T of
           Clean \<Rightarrow> sublist ''identified no data integrity issues. '' S
         | Minor \<Rightarrow>
             sublist (''. With a '' @ status @ '' integrity score of '' @ fmt_1f score @
                      ''%, the catalog '' @ verb @ '' strong data quality '') S
         | Moderate \<Rightarrow>
             sublist (''. The '' @ status @ '' integrity score of '' @ fmt_1f score @
                      ''% '' @ verb @ '' moderate data quality concerns. '') S
         | Severe \<Rightarrow>
             sublist (''. With a '' @ status @ '' integrity score of '' @ fmt_1f score @
                      ''%, urgent remediation is required. '') S))
   \<and> health (PFloat (Finite q)) =
       (if 90 \<le> q then (''excellent'', ''demonstrates'')
        else if 75 \<le> q then (''good'', ''shows'')
        else if 50 \<le> q then (''fair'', ''indicates'')
        else (''poor'', ''reveals''))
   \<and> health (PInt i) =
       (if 90 \<le> i then (''excellent'', ''demonstrates'')
        else if 75 \<le> i then (''good'', ''shows'')
        else if 50 \<le> i then (''fair'', ''indicates'')
        else (''poor'', ''reveals''))
   \<and> health (PFloat NaN) = (''poor'', ''reveals'')"
proof -
  define S where "S = generate_executive_summary m"
  define T where "T = claimed_template m"
  have main: "suffix ''without requiring remediation.'' S = (T = Clean)
     \<and> suffix ''remediation required.'' S = (T = Minor)
     \<and> suffix ''to improve catalog quality.'' S = (T = Moderate)
     \<and> suffix ''quality degradation.'' S = (T = Severe)
     \<and> (case T of
           Clean \<Rightarrow> sublist ''identified no data integrity issues. '' S
         | Minor \<Rightarrow>
             sublist (''. With a '' @ fst (health (data_integrity_score m)) @ '' integrity score of '' @
                      fmt_1f (data_integrity_score m) @
                      ''%, the catalog '' @ snd (health (data_integrity_score m)) @ '' strong data quality '') S
         | Moderate \<Rightarrow>
             sublist (''. The '' @ fst (health (data_integrity_score m)) @ '' integrity score of '' @
                      fmt_1f (data_integrity_score m) @
                      ''% '' @ snd (health (data_integrity_score m)) @ '' moderate data quality concerns. '') S
         | Severe \<Rightarrow>
             sublist (''. With a '' @ fst (health (data_integrity_score m)) @ '' integrity score of '' @
                      fmt_1f (data_integrity_score m) @
                      ''%, urgent remediation is required. '') S)"
  proof (cases T)
    case Clean
    then have eq: "S = (''Analysis of '' @ comma_int (total_records m) @ '' catalog records '') @
       ''identified no data integrity issues. '' @
       (''All products passed validation with a perfect '' @ fmt_1f (data_integrity_score m) @
        ''% integrity score. '') @
       ''The catalog is production-ready without requiring remediation.''"
      unfolding S_def T_def by (rule summary_Clean)
    have s1: "suffix ''without requiring remediation.'' S"
      by (subst suffix_closing [OF eq]) (simp, simp only: closing_Clean simp_thms)
    have s2: "\<not> suffix ''remediation required.'' S"
      by (subst suffix_closing [OF eq]) (simp, simp only: closing_Clean simp_thms)
    have s3: "\<not> suffix ''to improve catalog quality.'' S"
      by (subst suffix_closing [OF eq]) (simp, simp only: closing_Clean simp_thms)
    have s4: "\<not> suffix ''quality degradation.'' S"
      by (subst suffix_closing [OF eq]) (simp, simp only: closing_Clean simp_thms)
    have "sublist ''identified no data integrity issues. '' S"
      using eq by (rule sublist_mid)
    with s1 s2 s3 s4 Clean show ?thesis by simp
  next
    case Minor
    then have eq: "S = (''Analysis of '' @ comma_int (total_records m) @ '' catalog records identified '' @
        fmt_1f (invalid_pct m) @ ''% data integrity issues ('' @ comma_nat (invalid_records m) @
        '' records), '' @ top_issues_text m) @
       (''. With a '' @ fst (health (data_integrity_score m)) @ '' integrity score of '' @
        fmt_1f (data_integrity_score m) @ ''%, the catalog '' @ snd (health (data_integrity_score m)) @
        '' strong data quality '') @
       ''suitable for production use '' @ ''with minimal remediation required.''"
      unfolding S_def T_def by (rule summary_Minor)
    have s1: "\<not> suffix ''without requiring remediation.'' S"
      by (subst suffix_closing [OF eq]) (simp, simp only: closing_Minor simp_thms)
    have s2: "suffix ''remediation required.'' S"
      by (subst suffix_closing [OF eq]) (simp, simp only: closing_Minor simp_thms)
    have s3: "\<not> suffix ''to improve catalog quality.'' S"
      by (subst suffix_closing [OF eq]) (simp, simp only: closing_Minor simp_thms)
    have s4: "\<not> suffix ''quality degradation.'' S"
      by (subst suffix_closing [OF eq]) (simp, simp only: closing_Minor simp_thms)
    have "sublist (''. With a '' @ fst (health (data_integrity_score m)) @ '' integrity score of '' @
        fmt_1f (data_integrity_score m) @ ''%, the catalog '' @ snd (health (data_integrity_score m)) @
        '' strong data quality '') S"
      using eq by (rule sublist_mid)
    with s1 s2 s3 s4 Minor show ?thesis by simp
  next
    case Moderate
    then have eq: "S = (''Analysis of '' @ comma_int (total_records m) @ '' catalog records identified '' @
        fmt_1f (invalid_pct m) @ ''% data integrity issues ('' @ comma_nat (invalid_records m) @
        '' records), '' @ top_issues_text m) @
       (''. The '' @ fst (health (data_integrity_score m)) @ '' integrity score of '' @
        fmt_1f (data_integrity_score m) @ ''% '' @ snd (health (data_integrity_score m)) @
        '' moderate data quality concerns. '') @
       ''Recommended immediate action '' @
       ''includes deduplication efforts and category standardization to improve catalog quality.''"
      unfolding S_def T_def by (rule summary_Moderate)
    have s1: "\<not> suffix ''without requiring remediation.'' S"
      by (subst suffix_closing [OF eq]) (simp, simp only: closing_Moderate simp_thms)
    have s2: "\<not> suffix ''remediation required.'' S"
      by (subst suffix_closing [OF eq]) (simp, simp only: closing_Moderate simp_thms)
    have s3: "suffix ''to improve catalog quality.'' S"
      by (subst suffix_closing [OF eq]) (simp, simp only: closing_Moderate simp_thms)
    have s4: "\<not> suffix ''quality degradation.'' S"
      by (subst suffix_closing [OF eq]) (simp, simp only: closing_Moderate simp_thms)
    have "sublist (''. The '' @ fst (health (data_integrity_score m)) @ '' integrity score of '' @
        fmt_1f (data_integrity_score m) @ ''% '' @ snd (health (data_integrity_score m)) @
        '' moderate data quality concerns. '') S"
      using eq by (rule sublist_mid)
    with s1 s2 s3 s4 Moderate show ?thesis by simp
  next
    case Severe
    then have eq: "S = (''Analysis of '' @ comma_int (total_records m) @
        '' catalog records identified significant data integrity issues '' @
        ''affecting '' @ fmt_1f (invalid_pct m) @ ''% of records ('' @ comma_nat (invalid_records m) @
        '' records), '' @ top_issues_text m) @
       (''. With a '' @ fst (health (data_integrity_score m)) @ '' integrity score of '' @
        fmt_1f (data_integrity_score m) @ ''%, urgent remediation is required. '') @
       ''Priority actions include resolving duplicate SKUs, standardizing missing fields, and '' @
       ''implementing upstream validation to prevent future data quality degradation.''"
      unfolding S_def T_def by (rule summary_Severe)
    have s1: "\<not> suffix ''without requiring remediation.'' S"
      by (subst suffix_closing [OF eq]) (simp, simp only: closing_Severe simp_thms)
    have s2: "\<not> suffix ''remediation required.'' S"
      by (subst suffix_closing [OF eq]) (simp, simp only: closing_Severe simp_thms)
    have s3: "\<not> suffix ''to improve catalog quality.'' S"
      by (subst suffix_closing [OF eq]) (simp, simp only: closing_Severe simp_thms)
    have s4: "suffix ''quality degradation.'' S"
      by (subst suffix_closing [OF eq]) (simp, simp only: closing_Severe simp_thms)
    have "sublist (''. With a '' @ fst (health (data_integrity_score m)) @ '' integrity score of '' @
        fmt_1f (data_integrity_score m) @ ''%, urgent remediation is required. '') S"
      using eq by (rule sublist_mid)
    with s1 s2 s3 s4 Severe show ?thesis by simp
  qed
  show ?thesis
    unfolding Let_def using main unfolding S_def T_def
    by (simp only: health_Finite health_PInt health_NaN simp_thms)
qed

lemma executive_summary_example:
  "generate_executive_summary
     \<lparr>total_records = 100, valid_records = 90, invalid_records = 10,
       data_integrity_score = PFloat (Finite 90), total_errors = 12,
       top_5_issues = [(''duplicate_sku'', 6), (''price_too_low'', 4), (''low_stock_warning'', 2)]\<rparr>
   = ''Analysis of 100 catalog records identified 10.0% data integrity issues (10 records), '' @
     ''primarily driven by Duplicate Sku (50%), Price Too Low (33%), and Low Stock Warning (16%). '' @
     ''The excellent integrity score of 90.0% demonstrates moderate data quality concerns. '' @
     ''Recommended immediate action includes deduplication efforts and category standardization '' @
     ''to improve catalog quality.''"
  by code_simp

lemma executive_summary_example_parts:
  "claimed_template
     \<lparr>total_records = 100, valid_records = 90, invalid_records = 10,
       data_integrity_score = PFloat (Finite 90), total_errors = 12,
       top_5_issues = [(''duplicate_sku'', 6), (''price_too_low'', 4), (''low_stock_warning'', 2)]\<rparr> = Moderate"
  "health (PFloat (Finite 90)) = (''excellent'', ''demonstrates'')"
  "fmt_1f (PFloat (Finite 90)) = ''90.0''"
  by code_simp+

theorem executive_summary_template_witness:
  "suffix ''to improve catalog quality.''
     (generate_executive_summary
     \<lparr>total_records = 100, valid_records = 90, invalid_records = 10,
       data_integrity_score = PFloat (Finite 90), total_errors = 12,
       top_5_issues = [(''duplicate_sku'', 6), (''price_too_low'', 4), (''low_stock_warning'', 2)]\<rparr>)
   \<and> sublist ''. The excellent integrity score of 90.0% demonstrates moderate data quality concerns. ''
     (generate_executive_summary
     \<lparr>total_records = 100, valid_records = 90, invalid_records = 10,
       data_integrity_score = PFloat (Finite 90), total_errors = 12,
       top_5_issues = [(''duplicate_sku'', 6), (''price_too_low'', 4), (''low_stock_warning'', 2)]\<rparr>)"
proof -
  define M where "M =
     \<lparr>total_records = 100, valid_records = 90, invalid_records = 10,
       data_integrity_score = PFloat (Finite 90), total_errors = 12,
       top_5_issues = [(''duplicate_sku'', 6), (''price_too_low'', 4), (''low_stock_warning'', 2)]\<rparr>"
  have T: "claimed_template M = Moderate"
    unfolding M_def by (rule executive_summary_example_parts)
  have score: "data_integrity_score M = PFloat (Finite 90)"
    by (simp add: M_def)
  have "suffix ''to improve catalog quality.'' (generate_executive_summary M)
     \<and> sublist (''. The '' @ ''excellent'' @ '' integrity score of '' @ ''90.0'' @
                ''% '' @ ''demonstrates'' @ '' moderate data quality concerns. '')
       (generate_executive_summary M)"
    using executive_summary_template [of M, THEN conjunct1]
    by (simp only: Let_def T score executive_summary_example_parts template.case fst_conv snd_conv simp_thms)
  then show ?thesis
    unfolding M_def by simp
qed

end
